theory Spec2Isabelle
  imports Complex_Main "HOL-Library.Word" "HOL-Library.Multiset"
begin

section \<open>JavaScript values\<close>

text \<open>
  Numbers of the program are IEEE doubles; here they are exact reals, so every
  arithmetic step is the mathematical one. The two places where the program can
  produce a value that is no real number (a division by zero in the regression,
  the maximum of an empty list) are branches of the model that return
  \<open>NonFinite\<close>. Integer-valued numbers that the program only compares, adds
  and subtracts (years, counts, ranks) are \<open>int\<close> or \<open>nat\<close>.
  Strings are \<open>string\<close>, lists of 8-bit characters, so a name is a name in the
  Latin-1 range and \<open>charCodeAt\<close> is \<open>of_char\<close>. The clock is an input of
  every function that reads it. The year-over-year percentages of the data store
  are computed as the program computes them, in double arithmetic: every
  operation there is followed by \<open>to_double\<close>.
\<close>

datatype js_error = NonFinite

text \<open>\<open>Math.round\<close>: the nearest integer, a tie going up.\<close>

definition Math_round :: "real \<Rightarrow> real" where
  "Math_round x = of_int \<lfloor>x + 1 / 2\<rfloor>"

text \<open>
  \<open>+x.toFixed(d)\<close>: the sign is split off, the magnitude is rounded to \<open>d\<close>
  decimals with a tie going to the larger magnitude, and the unary plus reads the
  decimal string back as a number.
\<close>

definition toFixed :: "real \<Rightarrow> nat \<Rightarrow> real" where
  "toFixed x d = sgn x * of_int \<lfloor>\<bar>x\<bar> * 10 ^ d + 1 / 2\<rfloor> / 10 ^ d"

text \<open>The nearest integer, a tie going to the even one.\<close>

definition round_half_even :: "real \<Rightarrow> int" where
  "round_half_even x =
     (let f = \<lfloor>x\<rfloor>
      in if x - of_int f < 1 / 2 then f
         else if 1 / 2 < x - of_int f then f + 1
         else if even f then f else f + 1)"

text \<open>
  The result of an arithmetic operation as the program holds it: the exact result
  rounded to the nearest double. A double has a significand of 53 bits, so the
  last place of \<open>x\<close> has the exponent \<open>\<lfloor>log 2 \<bar>x\<bar>\<rfloor> - 52\<close>, and no less
  than -1074; a tie goes to the even significand; a rounded magnitude of
  \<open>2^1024\<close> or more is \<open>Infinity\<close>, which is \<open>Inl NonFinite\<close>.
\<close>

definition to_double :: "real \<Rightarrow> js_error + real" where
  "to_double x =
     (if x = 0 then Inr 0
      else
        (let e = max (\<lfloor>log 2 \<bar>x\<bar>\<rfloor> - 52) (- 1074);
             y = of_int (round_half_even (x / 2 powr of_int e)) * 2 powr of_int e
         in if 2 ^ 1024 \<le> \<bar>y\<bar> then Inl NonFinite else Inr y))"

text \<open>
  One more operation on a double: \<open>Infinity\<close> and \<open>NaN\<close> stay what they are
  under the operations this is used for (division by a finite non-zero number,
  multiplication by 100, \<open>toFixed\<close>).
\<close>

definition then_double :: "js_error + real \<Rightarrow> (real \<Rightarrow> real) \<Rightarrow> js_error + real" where
  "then_double r f = (case r of Inl e \<Rightarrow> Inl e | Inr x \<Rightarrow> to_double (f x))"

text \<open>\<open>a % b\<close> on integers: the remainder has the sign of the dividend.\<close>

definition js_rem :: "int \<Rightarrow> int \<Rightarrow> int" where
  "js_rem a b = sgn a * (\<bar>a\<bar> mod \<bar>b\<bar>)"

text \<open>\<open>x || d\<close> on a number: \<open>0\<close> is falsy.\<close>

definition or_default :: "real \<Rightarrow> real \<Rightarrow> real" where
  "or_default x d = (if x = 0 then d else x)"

section \<open>Observations\<close>

text \<open>
  One row as \<open>parseCSV\<close> builds it. \<open>latitude\<close> and \<open>longitude\<close> are
  \<open>None\<close> where the row has \<open>null\<close> or no such field; \<open>lastUpdated\<close> is the
  \<open>Date\<close> as milliseconds.
\<close>

record observation =
  location :: string
  year :: int
  consumption :: real
  perCapitaUsage :: real
  agriculturalUsage :: real
  industrialUsage :: real
  householdUsage :: real
  rainfall :: real
  depletionRate :: real
  scarcityLevel :: string
  ph :: real
  groundwaterLevel :: real
  latitude :: "real option"
  longitude :: "real option"
  lastUpdated :: int

section \<open>Water score engine (utils/waterScore)\<close>

text \<open>\<open>THRESHOLDS\<close>\<close>

definition waterLevel_min :: real where "waterLevel_min = 4"
definition waterLevel_max :: real where "waterLevel_max = 20"
definition rainfall_min :: real where "rainfall_min = 500"
definition rainfall_max :: real where "rainfall_max = 1500"
definition depletion_min :: real where "depletion_min = 0"
definition depletion_max :: real where "depletion_max = 10"
definition ph_ideal :: real where "ph_ideal = 7.0"
definition ph_range :: real where "ph_range = 1.5"

text \<open>
  \<open>normalize(value, min, max, invert)\<close>. Every call of the program passes
  constants with \<open>min < max\<close>, so the division is by a non-zero number.
\<close>

definition normalize_js :: "real \<Rightarrow> real \<Rightarrow> real \<Rightarrow> bool \<Rightarrow> real" where
  "normalize_js v mn mx invert =
     (let clamped = max mn (min mx v);
          normalized = ((clamped - mn) / (mx - mn)) * 100
      in if invert then 100 - normalized else normalized)"

definition calculateWaterScore :: "'a observation_scheme \<Rightarrow> real" where
  "calculateWaterScore d =
     (let waterLevelScore = normalize_js (groundwaterLevel d) waterLevel_min waterLevel_max True;
          rainfallScore = normalize_js (rainfall d) rainfall_min rainfall_max False;
          depletionScore = normalize_js (depletionRate d) depletion_min depletion_max True;
          phDeviation = \<bar>ph d - ph_ideal\<bar>;
          phScore = normalize_js phDeviation 0 ph_range True;
          score = waterLevelScore * 0.35 + rainfallScore * 0.25
                  + depletionScore * 0.30 + phScore * 0.10
      in Math_round (max 0 (min 100 score)))"

definition getStatus :: "real \<Rightarrow> string" where
  "getStatus score =
     (if score \<ge> 70 then ''Safe'' else if score \<ge> 40 then ''Warning'' else ''Critical'')"

definition getStatusColor :: "real \<Rightarrow> string" where
  "getStatusColor score =
     (if score \<ge> 70 then ''#22c55e'' else if score \<ge> 40 then ''#eab308'' else ''#ef4444'')"

record index_value =
  index_label :: string
  index_num :: real

definition calculateWQI :: "real \<Rightarrow> index_value" where
  "calculateWQI p =
     (let deviation = \<bar>p - 7.0\<bar>
      in if deviation \<le> 0.5 then \<lparr>index_label = ''Excellent'', index_num = 95\<rparr>
         else if deviation \<le> 1.0 then \<lparr>index_label = ''Good'', index_num = 75\<rparr>
         else if deviation \<le> 1.5 then \<lparr>index_label = ''Fair'', index_num = 55\<rparr>
         else \<lparr>index_label = ''Poor'', index_num = 30\<rparr>)"

definition calculateDepletionIndex :: "real \<Rightarrow> index_value" where
  "calculateDepletionIndex r =
     (if r \<le> 2 then \<lparr>index_label = ''Sustainable'', index_num = 90\<rparr>
      else if r \<le> 4 then \<lparr>index_label = ''Moderate'', index_num = 65\<rparr>
      else if r \<le> 6 then \<lparr>index_label = ''Concerning'', index_num = 40\<rparr>
      else \<lparr>index_label = ''Critical'', index_num = 15\<rparr>)"

definition calculateSustainabilityScore :: "'a observation_scheme \<Rightarrow> real" where
  "calculateSustainabilityScore d =
     (let rechargeCapacity = normalize_js (rainfall d) 500 1500 False * 0.4;
          extractionImpact = normalize_js (depletionRate d) 0 10 True * 0.35;
          qualityFactor = normalize_js \<bar>ph d - 7.0\<bar> 0 1.5 True * 0.25
      in Math_round (rechargeCapacity + extractionImpact + qualityFactor))"

section \<open>Synthetic series generator (dataStore)\<close>

text \<open>
  The name hash shared by \<open>generateMultiYearData\<close> and \<open>generateCoordinates\<close>:
  \<open>hash = (hash << 5) - hash + charCode; hash |= 0\<close>, a 32-bit signed integer
  after every step.
\<close>

fun hash_loop :: "32 word \<Rightarrow> string \<Rightarrow> 32 word" where
  "hash_loop h [] = h"
| "hash_loop h (c # cs) = hash_loop (push_bit 5 h - h + of_char c) cs"

definition name_hash :: "string \<Rightarrow> 32 word" where
  "name_hash s = hash_loop 0 s"

definition years :: "int list" where
  "years = [2016, 2017, 2018, 2019, 2020, 2021]"

definition classify_scarcity :: "real \<Rightarrow> real \<Rightarrow> string" where
  "classify_scarcity newDepletion newRainfall =
     (if newDepletion \<ge> 6 then ''Severe''
      else if newDepletion \<ge> 5 then ''High''
      else if newDepletion \<ge> 3 then (if newRainfall < 750 then ''High'' else ''Moderate'')
      else ''Low'')"

text \<open>
  The body of the loop for a year other than the base year. \<open>now\<close> is the
  reading of the wall clock that \<open>new Date()\<close> takes when the record is built.
\<close>

definition synthesize :: "int \<Rightarrow> 32 word \<Rightarrow> observation \<Rightarrow> int \<Rightarrow> observation" where
  "synthesize now hash baseRow yr =
     (let offset = real_of_int (yr - year baseRow);
          varSeed = js_rem (\<bar>sint hash\<bar> + yr) 100;
          variation = (real_of_int varSeed - 50) / 200;
          depletionDelta = offset * 0.25 + variation * 0.4;
          rainfallDelta = offset * (- 8) + variation * 35;
          levelDelta = offset * 0.15 + variation * 0.35;
          newDepletion = max 0.5 (toFixed (depletionRate baseRow + depletionDelta) 1);
          newRainfall = max 400 (toFixed (rainfall baseRow + rainfallDelta) 0);
          newLevel = max 3 (toFixed (groundwaterLevel baseRow + levelDelta) 1);
          newConsumption = max 100 (toFixed (consumption baseRow + offset * 8 + variation * 15) 0);
          newPh = max 6.0 (min 9.0 (toFixed (ph baseRow + variation * 0.25) 1));
          newAgri = max 50 (toFixed (agriculturalUsage baseRow + offset * 4 + variation * 12) 0);
          newIndustrial = max 10 (toFixed (industrialUsage baseRow + offset * 2 + variation * 8) 0);
          newHousehold = max 20 (toFixed (householdUsage baseRow + offset * 2 + variation * 6) 0);
          newPerCapita = max 50 (toFixed (perCapitaUsage baseRow + offset * 1.5 + variation * 4) 0);
          scarcity = classify_scarcity newDepletion newRainfall
      in \<lparr>location = location baseRow,
          year = yr,
          consumption = newConsumption,
          perCapitaUsage = newPerCapita,
          agriculturalUsage = newAgri,
          industrialUsage = newIndustrial,
          householdUsage = newHousehold,
          rainfall = newRainfall,
          depletionRate = newDepletion,
          scarcityLevel = scarcity,
          ph = newPh,
          groundwaterLevel = newLevel,
          latitude = None,
          longitude = None,
          lastUpdated = now\<rparr>)"

text \<open>
  \<open>generateMultiYearData(baseRow)\<close>. The clock is an input: \<open>clock yr\<close> is what
  \<open>new Date()\<close> returns in the iteration for year \<open>yr\<close>.
\<close>

definition generateMultiYearData :: "(int \<Rightarrow> int) \<Rightarrow> observation \<Rightarrow> observation list" where
  "generateMultiYearData clock baseRow =
     (let hash = name_hash (location baseRow)
      in map (\<lambda>yr. if yr = year baseRow then baseRow
                   else synthesize (clock yr) hash baseRow yr) years)"

section \<open>Alert engine (utils/alertEngine)\<close>

text \<open>\<open>ALERT_THRESHOLDS\<close>\<close>

definition criticalWaterLevel :: real where "criticalWaterLevel = 15"
definition warningWaterLevel :: real where "warningWaterLevel = 12"
definition highDepletion :: real where "highDepletion = 5"
definition criticalDepletion :: real where "criticalDepletion = 7"
definition lowRainfall :: real where "lowRainfall = 700"
definition criticalRainfall :: real where "criticalRainfall = 600"
definition highPH :: real where "highPH = 8.0"
definition lowPH :: real where "lowPH = 6.5"
definition highConsumption :: real where "highConsumption = 500"

text \<open>
  A field that holds a number in one alert and a string in another, and the parts
  of a template literal: literal text, an interpolated string, an interpolated
  number, and a number printed by \<open>toFixed\<close>. Printing a number is left
  symbolic. A title is the source's title without its leading pictograph, and the
  arrow in the message of the last trend alert is written \<open>->\<close>.
\<close>

datatype js_value = Num real | Str string

datatype piece = Txt string | Val real | Fixed real nat

record alert =
  alert_type :: string
  category :: string
  title :: string
  message :: "piece list"
  alert_value :: js_value
  threshold :: "js_value option"
  recommendation :: string
  timestamp :: string

text \<open>
  The counting loop of the three run detections, for \<open>i = 1 .. length - 1\<close>:
  the counter goes up where \<open>worse (sorted[i - 1]) (sorted[i])\<close> holds and back
  to 0 where it does not.
\<close>

fun consecutive :: "('a \<Rightarrow> 'a \<Rightarrow> bool) \<Rightarrow> nat \<Rightarrow> 'a list \<Rightarrow> nat" where
  "consecutive worse c (p # q # rest) =
     consecutive worse (if worse p q then c + 1 else 0) (q # rest)"
| "consecutive worse c [p] = c"
| "consecutive worse c [] = c"

definition threshold_alerts :: "string \<Rightarrow> observation \<Rightarrow> alert list" where
  "threshold_alerts ts d =
     (if groundwaterLevel d \<ge> criticalWaterLevel then
        [\<lparr>alert_type = ''critical'', category = ''Water Level'',
          title = ''Critical Water Level'',
          message = [Txt ''Groundwater level at '', Val (groundwaterLevel d),
                     Txt ''m depth in '', Txt (location d),
                     Txt ''. Immediate action required.''],
          alert_value = Num (groundwaterLevel d),
          threshold = Some (Num criticalWaterLevel),
          recommendation = ''Implement water rationing and emergency recharge measures.'',
          timestamp = ts\<rparr>]
      else if groundwaterLevel d \<ge> warningWaterLevel then
        [\<lparr>alert_type = ''warning'', category = ''Water Level'',
          title = ''Low Water Table'',
          message = [Txt ''Water table at '', Val (groundwaterLevel d), Txt ''m in '',
                     Txt (location d), Txt ''. Monitor closely.''],
          alert_value = Num (groundwaterLevel d),
          threshold = Some (Num warningWaterLevel),
          recommendation =
            ''Increase monitoring frequency. Consider water conservation measures.'',
          timestamp = ts\<rparr>]
      else [])
     @ (if depletionRate d \<ge> criticalDepletion then
        [\<lparr>alert_type = ''critical'', category = ''Depletion'',
          title = ''Over-extraction Detected'',
          message = [Txt ''Groundwater depletion rate at '', Val (depletionRate d),
                     Txt ''% in '', Txt (location d), Txt ''. Aquifer stress is severe.''],
          alert_value = Num (depletionRate d),
          threshold = Some (Num criticalDepletion),
          recommendation =
            ''Restrict bore-well usage. Implement mandatory rainwater harvesting.'',
          timestamp = ts\<rparr>]
      else if depletionRate d \<ge> highDepletion then
        [\<lparr>alert_type = ''warning'', category = ''Depletion'',
          title = ''High Depletion Rate'',
          message = [Txt ''Depletion rate '', Val (depletionRate d), Txt ''% in '',
                     Txt (location d), Txt ''. Extraction exceeds recharge.''],
          alert_value = Num (depletionRate d),
          threshold = Some (Num highDepletion),
          recommendation = ''Promote water-efficient irrigation. Review extraction permits.'',
          timestamp = ts\<rparr>]
      else [])
     @ (if rainfall d \<le> criticalRainfall then
        [\<lparr>alert_type = ''critical'', category = ''Rainfall'',
          title = ''Drought Risk'',
          message = [Txt ''Rainfall only '', Val (rainfall d), Txt ''mm in '',
                     Txt (location d), Txt ''. Severe drought conditions likely.''],
          alert_value = Num (rainfall d),
          threshold = Some (Num criticalRainfall),
          recommendation = ''Activate drought contingency plans. Arrange water tanker supply.'',
          timestamp = ts\<rparr>]
      else if rainfall d \<le> lowRainfall then
        [\<lparr>alert_type = ''warning'', category = ''Rainfall'',
          title = ''Below Normal Rainfall'',
          message = [Txt ''Rainfall '', Val (rainfall d), Txt ''mm in '',
                     Txt (location d), Txt '', below expected levels.''],
          alert_value = Num (rainfall d),
          threshold = Some (Num lowRainfall),
          recommendation =
            ''Monitor reservoir levels. Advise farmers on drought-resistant crops.'',
          timestamp = ts\<rparr>]
      else [])
     @ (if ph d \<ge> highPH \<or> ph d \<le> lowPH then
        [\<lparr>alert_type = ''warning'', category = ''Water Quality'',
          title = ''pH Imbalance'',
          message = [Txt ''pH level '', Val (ph d), Txt '' in '', Txt (location d),
                     Txt ''. Water quality may be affected.''],
          alert_value = Num (ph d),
          threshold = Some (Str ''6.5-8''),
          recommendation =
            ''Test for contaminants. Advise water treatment before consumption.'',
          timestamp = ts\<rparr>]
      else [])
     @ (if consumption d \<ge> highConsumption then
        [\<lparr>alert_type = ''info'', category = ''Consumption'',
          title = ''High Water Consumption'',
          message = [Txt ''Total consumption '', Val (consumption d), Txt '' Ml in '',
                     Txt (location d), Txt ''. Above district average.''],
          alert_value = Num (consumption d),
          threshold = Some (Num highConsumption),
          recommendation =
            ''Review industrial and agricultural water permits. Promote efficiency.'',
          timestamp = ts\<rparr>]
      else [])
     @ (if scarcityLevel d = ''Severe'' \<or> scarcityLevel d = ''Extreme'' then
        [\<lparr>alert_type = ''critical'', category = ''Scarcity'',
          title = scarcityLevel d @ '' Water Scarcity'',
          message = [Txt (location d), Txt '' classified as '', Txt (scarcityLevel d),
                     Txt '' water scarcity zone.''],
          alert_value = Str (scarcityLevel d),
          threshold = None,
          recommendation = ''Prioritize for government water supply augmentation schemes.'',
          timestamp = ts\<rparr>]
      else [])"

text \<open>
  The trend block, entered with a history of at least 3 records. The index
  \<open>length - 1 - consecutiveRise\<close> is in range: the counter never exceeds the
  number of comparisons, \<open>length - 1\<close>.
\<close>

definition trend_alerts :: "string \<Rightarrow> observation \<Rightarrow> observation list \<Rightarrow> alert list" where
  "trend_alerts ts d history =
     (let sorted = sort_key year history;
          consecutiveRise =
            consecutive (\<lambda>p q. groundwaterLevel q > groundwaterLevel p) 0 sorted;
          consecutiveDepIncrease =
            consecutive (\<lambda>p q. depletionRate q > depletionRate p) 0 sorted;
          consecutiveRainfallDrop =
            consecutive (\<lambda>p q. rainfall q < rainfall p) 0 sorted;
          scores = map calculateWaterScore sorted;
          firstHalf = take (length scores div 2) scores;
          secondHalf = drop (length scores div 2) scores;
          avgFirst = sum_list firstHalf / real (length firstHalf);
          avgSecond = sum_list secondHalf / real (length secondHalf)
      in (if consecutiveRise \<ge> 3 then
            (let totalRise = groundwaterLevel (sorted ! (length sorted - 1))
                   - groundwaterLevel (sorted ! (length sorted - 1 - consecutiveRise))
             in [\<lparr>alert_type = ''warning'', category = ''Trend'',
                   title = ''Sustained Water Level Decline'',
                   message = [Txt ''Water level in '', Txt (location d),
                              Txt '' has been dropping for '', Val (real consecutiveRise),
                              Txt '' consecutive years ('', Fixed totalRise 1,
                              Txt ''m increase in depth).''],
                   alert_value = Num (real consecutiveRise),
                   threshold = None,
                   recommendation = ''Long-term recharge intervention needed. Consider artificial recharge structures.'',
                   timestamp = ts\<rparr>])
          else [])
         @ (if consecutiveDepIncrease \<ge> 3 then
            [\<lparr>alert_type = ''critical'', category = ''Trend'',
              title = ''Accelerating Depletion Trend'',
              message = [Txt ''Depletion rate in '', Txt (location d),
                         Txt '' has increased for '', Val (real consecutiveDepIncrease),
                         Txt '' consecutive years. Current: '', Val (depletionRate d),
                         Txt ''%.''],
              alert_value = Num (real consecutiveDepIncrease),
              threshold = None,
              recommendation =
                ''Urgent policy intervention needed. Restrict new extraction permits.'',
              timestamp = ts\<rparr>]
          else [])
         @ (if consecutiveRainfallDrop \<ge> 3 then
            [\<lparr>alert_type = ''warning'', category = ''Trend'',
              title = ''Declining Rainfall Pattern'',
              message = [Txt ''Rainfall in '', Txt (location d),
                         Txt '' has decreased for '', Val (real consecutiveRainfallDrop),
                         Txt '' consecutive years. Long-term drought risk elevated.''],
              alert_value = Num (real consecutiveRainfallDrop),
              threshold = None,
              recommendation = ''Plan for drought resilience. Increase water storage capacity.'',
              timestamp = ts\<rparr>]
          else [])
         @ (if avgSecond < avgFirst - 10 then
            [\<lparr>alert_type = ''warning'', category = ''Trend'',
              title = ''Overall Water Health Declining'',
              message = [Txt ''Water health score in '', Txt (location d),
                         Txt '' has declined significantly (avg '', Val (Math_round avgFirst),
                         Txt '' -> '', Val (Math_round avgSecond),
                         Txt '') over the monitoring period.''],
              alert_value = Num (Math_round (avgSecond - avgFirst)),
              threshold = None,
              recommendation =
                ''Comprehensive water management review recommended for this location.'',
              timestamp = ts\<rparr>]
          else []))"

text \<open>
  \<open>generateAlerts(data, history)\<close>; \<open>ts\<close> is \<open>new Date().toISOString()\<close>, and a
  call without the optional \<open>history\<close> passes \<open>None\<close>.
\<close>

definition generateAlerts :: "string \<Rightarrow> observation \<Rightarrow> observation list option \<Rightarrow> alert list" where
  "generateAlerts ts d history =
     threshold_alerts ts d
     @ (case history of
          None \<Rightarrow> []
        | Some h \<Rightarrow> if length h \<ge> 3 then trend_alerts ts d h else [])"

text \<open>
  The alerts of a list that carry the title of the sustained-decline trend alert.
\<close>

definition sustained_decline :: "alert list \<Rightarrow> alert list" where
  "sustained_decline alerts = filter (\<lambda>a. title a = ''Sustained Water Level Decline'') alerts"

section \<open>In-memory data store (dataStore)\<close>

text \<open>
  The module's array \<open>waterData\<close> is the first argument of every query.
\<close>

record enriched = observation +
  waterScore :: real
  status :: string
  statusColor :: string
  wqi :: index_value
  depletionIndex :: index_value
  sustainabilityScore :: real

definition enrichRecord :: "observation \<Rightarrow> enriched" where
  "enrichRecord d =
     (let score = calculateWaterScore d
      in observation.extend d
           (enriched.fields score (getStatus score) (getStatusColor score)
              (calculateWQI (ph d)) (calculateDepletionIndex (depletionRate d))
              (calculateSustainabilityScore d)))"

text \<open>\<open>filter\<close>, then the stable \<open>sort\<close> by ascending year.\<close>

definition getWaterByLocation :: "observation list \<Rightarrow> string \<Rightarrow> observation list" where
  "getWaterByLocation waterData locationName =
     sort_key year (filter (\<lambda>d. location d = locationName) waterData)"

definition getLatestByLocation :: "observation list \<Rightarrow> string \<Rightarrow> observation option" where
  "getLatestByLocation waterData locationName =
     (let records = getWaterByLocation waterData locationName
      in if records \<noteq> [] then Some (records ! (length records - 1)) else None)"

subsection \<open>The object \<open>latestMap\<close>\<close>

text \<open>
  \<open>latestMap\<close> is a plain object \<open>{}\<close> used as a dictionary from location
  names. Its own properties are an association list in insertion order. A name
  that \<open>Object.prototype\<close> defines is found on the prototype: the value read
  there is truthy and has no \<open>year\<close>, so neither test of the loop holds and no
  record under such a name is ever stored.
\<close>

definition Object_prototype_names :: "string list" where
  "Object_prototype_names =
     [''constructor'', ''hasOwnProperty'', ''isPrototypeOf'', ''propertyIsEnumerable'',
      ''toLocaleString'', ''toString'', ''valueOf'', ''__proto__'',
      ''__defineGetter__'', ''__defineSetter__'', ''__lookupGetter__'', ''__lookupSetter__'']"

definition latest_step :: "(string \<times> observation) list \<Rightarrow> observation \<Rightarrow> (string \<times> observation) list" where
  "latest_step latestMap d =
     (if location d \<in> set Object_prototype_names then latestMap
      else case map_of latestMap (location d) of
             None \<Rightarrow> latestMap @ [(location d, d)]
           | Some e \<Rightarrow> if year d > year e
                       then map (\<lambda>(k, v). if k = location d then (k, d) else (k, v)) latestMap
                       else latestMap)"

definition build_latestMap :: "observation list \<Rightarrow> (string \<times> observation) list" where
  "build_latestMap waterData = foldl latest_step [] waterData"

text \<open>
  \<open>Object.values\<close> lists the properties whose name is an array index (a
  canonical decimal numeral below \<open>2^32 - 1\<close>) first, in ascending numeric
  order, and then the others in insertion order.
\<close>

definition is_digit :: "char \<Rightarrow> bool" where
  "is_digit c = (48 \<le> (of_char c :: nat) \<and> (of_char c :: nat) \<le> 57)"

definition decimal :: "string \<Rightarrow> nat" where
  "decimal s = foldl (\<lambda>n c. 10 * n + (of_char c - 48)) (0::nat) s"

definition array_index :: "string \<Rightarrow> nat option" where
  "array_index s =
     (if s \<noteq> [] \<and> list_all is_digit s \<and> (s = ''0'' \<or> hd s \<noteq> CHR ''0'')
         \<and> decimal s < 2 ^ 32 - 1
      then Some (decimal s) else None)"

definition Object_values :: "(string \<times> 'a) list \<Rightarrow> 'a list" where
  "Object_values obj =
     map snd (sort_key fst
               (List.map_filter (\<lambda>(k, v). map_option (\<lambda>i. (i, v)) (array_index k)) obj))
     @ map snd (filter (\<lambda>(k, v). array_index k = None) obj)"

subsection \<open>District statistics\<close>

record tally =
  totalWaterLevel :: real
  totalRainfall :: real
  totalDepletion :: real
  critical_n :: nat
  warning_n :: nat
  safe_n :: nat

text \<open>One iteration of \<open>for (const d of latestArr)\<close>.\<close>

definition tally_step :: "tally \<Rightarrow> observation \<Rightarrow> tally" where
  "tally_step t d =
     (let t' = t\<lparr>totalWaterLevel := totalWaterLevel t + or_default (groundwaterLevel d) 0,
                 totalRainfall := totalRainfall t + or_default (rainfall d) 0,
                 totalDepletion := totalDepletion t + or_default (depletionRate d) 0\<rparr>
      in if scarcityLevel d = ''Severe'' \<or> scarcityLevel d = ''Extreme''
         then t'\<lparr>critical_n := critical_n t' + 1\<rparr>
         else if scarcityLevel d = ''High''
         then t'\<lparr>warning_n := warning_n t' + 1\<rparr>
         else t'\<lparr>safe_n := safe_n t' + 1\<rparr>)"

record district_stats =
  totalLocations :: nat
  avgWaterLevel :: real
  avgRainfall :: real
  avgDepletion :: real
  criticalCount :: nat
  warningCount :: nat
  safeCount :: nat

text \<open>\<open>getDistrictStats()\<close>; the empty object \<open>{}\<close> it returns for no data is \<open>None\<close>.\<close>

definition getDistrictStats :: "observation list \<Rightarrow> district_stats option" where
  "getDistrictStats waterData =
     (let latestArr = Object_values (build_latestMap waterData)
      in if length latestArr = 0 then None
         else
           (let t = foldl tally_step
                      \<lparr>totalWaterLevel = 0, totalRainfall = 0, totalDepletion = 0,
                       critical_n = 0, warning_n = 0, safe_n = 0\<rparr> latestArr;
                n = length latestArr
            in Some \<lparr>totalLocations = n,
                     avgWaterLevel = toFixed (totalWaterLevel t / real n) 2,
                     avgRainfall = toFixed (totalRainfall t / real n) 1,
                     avgDepletion = toFixed (totalDepletion t / real n) 2,
                     criticalCount = critical_n t,
                     warningCount = warning_n t,
                     safeCount = safe_n t\<rparr>))"

subsection \<open>Location summary and yearly changes\<close>

definition trend_of :: "real \<Rightarrow> string" where
  "trend_of diff =
     (if diff > 3 then ''improving'' else if diff < - 3 then ''declining'' else ''stable'')"

record yoy_change =
  yoy_from :: int
  yoy_to :: int
  waterLevelChange :: "js_error + real"
  rainfallChange :: "js_error + real"
  depletionChange :: "js_error + real"

text \<open>
  \<open>+((cur - prv) / (prv || 1) * 100).toFixed(1)\<close>, in double arithmetic: the
  difference, the quotient and the product are each rounded to a double,
  \<open>toFixed\<close> rounds the product to one decimal, and the unary plus reads that
  decimal back as a double. (From \<open>10^21\<close> on \<open>toFixed\<close> prints the number
  itself; a double of that size is an integer, which the rounding to one decimal
  leaves as it is.)
\<close>

definition yoy_pct :: "real \<Rightarrow> real \<Rightarrow> js_error + real" where
  "yoy_pct cur prv =
     then_double
       (then_double
          (then_double (to_double (cur - prv)) (\<lambda>d. d / or_default prv 1))
          (\<lambda>q. q * 100))
       (\<lambda>p. toFixed p 1)"

text \<open>The body of the loop over the consecutive pairs \<open>(records[i - 1], records[i])\<close>.\<close>

definition yoy_of :: "observation \<Rightarrow> observation \<Rightarrow> yoy_change" where
  "yoy_of prv cur =
     \<lparr>yoy_from = year prv,
      yoy_to = year cur,
      waterLevelChange = yoy_pct (groundwaterLevel cur) (groundwaterLevel prv),
      rainfallChange = yoy_pct (rainfall cur) (rainfall prv),
      depletionChange = yoy_pct (depletionRate cur) (depletionRate prv)\<rparr>"

record summary =
  sm_location :: string
  sm_year :: int
  sm_waterScore :: real
  sm_status :: string
  sm_statusColor :: string
  sm_groundwaterLevel :: real
  sm_rainfall :: real
  sm_depletionRate :: real
  sm_ph :: real
  sm_scarcityLevel :: string
  sm_wqi :: index_value
  sm_depletionIndex :: index_value
  sm_sustainabilityScore :: real
  sm_trend :: string
  alertCount :: nat
  yoyChanges :: "yoy_change list"
  narrative :: "piece list"
  yearsAvailable :: "int list"

text \<open>\<open>getLocationSummary(locationName)\<close>; \<open>null\<close> is \<open>None\<close>.\<close>

definition getLocationSummary :: "observation list \<Rightarrow> string \<Rightarrow> summary option" where
  "getLocationSummary waterData locationName =
     (let records = getWaterByLocation waterData locationName
      in if records = [] then None
         else
           (let latest = records ! (length records - 1);
                enr = enrichRecord latest;
                trend = (if length records \<ge> 2
                         then trend_of (waterScore enr
                                - calculateWaterScore (records ! (length records - 2)))
                         else ''stable'');
                yoy = (if length records \<ge> 2
                       then map (\<lambda>(prv, cur). yoy_of prv cur) (zip records (tl records))
                       else []);
                cnt = (if groundwaterLevel latest \<ge> 12 then 1 else 0)
                      + (if depletionRate latest \<ge> 5 then 1 else 0)
                      + (if rainfall latest \<le> 700 then 1 else 0)
                      + (if ph latest < 6.5 \<or> ph latest > 8.0 then 1 else 0)
                      + (if scarcityLevel latest = ''Severe'' \<or> scarcityLevel latest = ''Extreme''
                         then 1 else 0);
                sentence =
                  [Txt locationName, Txt '' has a water score of '', Val (waterScore enr),
                   Txt ''/100 ('', Txt (status enr), Txt ''). '',
                   Txt ''The groundwater level is '', Val (groundwaterLevel latest),
                   Txt ''m with '', Val (rainfall latest), Txt ''mm rainfall. '',
                   Txt ''Trend is '', Txt trend, Txt '' with '', Val (real cnt),
                   Txt '' active alert'', Txt (if cnt \<noteq> 1 then ''s'' else []), Txt ''.'']
            in Some \<lparr>sm_location = locationName,
                     sm_year = year latest,
                     sm_waterScore = waterScore enr,
                     sm_status = status enr,
                     sm_statusColor = statusColor enr,
                     sm_groundwaterLevel = groundwaterLevel latest,
                     sm_rainfall = rainfall latest,
                     sm_depletionRate = depletionRate latest,
                     sm_ph = ph latest,
                     sm_scarcityLevel = scarcityLevel latest,
                     sm_wqi = wqi enr,
                     sm_depletionIndex = depletionIndex enr,
                     sm_sustainabilityScore = sustainabilityScore enr,
                     sm_trend = trend,
                     alertCount = cnt,
                     yoyChanges = yoy,
                     narrative = sentence,
                     yearsAvailable = map year records\<rparr>))"

record metric_change =
  prev :: real
  curr :: real
  changePct :: "js_error + real"

record yearly_change =
  yc_from :: int
  yc_to :: int
  yc_waterLevel :: metric_change
  yc_rainfall :: metric_change
  yc_depletion :: metric_change
  yc_consumption :: metric_change
  yc_ph :: metric_change

text \<open>
  The local function \<open>safeDiv\<close> of \<open>getYearlyChanges\<close>:
  \<open>b !== 0 ? +((a - b) / Math.abs(b) * 100).toFixed(1) : 0\<close>, in double
  arithmetic as above.
\<close>

definition safeDiv :: "real \<Rightarrow> real \<Rightarrow> js_error + real" where
  "safeDiv a b =
     (if b \<noteq> 0
      then then_double
             (then_double
                (then_double (to_double (a - b)) (\<lambda>d. d / \<bar>b\<bar>))
                (\<lambda>q. q * 100))
             (\<lambda>p. toFixed p 1)
      else Inr 0)"

definition change_of :: "observation \<Rightarrow> observation \<Rightarrow> yearly_change" where
  "change_of prv cur =
     \<lparr>yc_from = year prv,
      yc_to = year cur,
      yc_waterLevel = \<lparr>prev = groundwaterLevel prv, curr = groundwaterLevel cur,
                       changePct = safeDiv (groundwaterLevel cur) (groundwaterLevel prv)\<rparr>,
      yc_rainfall = \<lparr>prev = rainfall prv, curr = rainfall cur,
                     changePct = safeDiv (rainfall cur) (rainfall prv)\<rparr>,
      yc_depletion = \<lparr>prev = depletionRate prv, curr = depletionRate cur,
                      changePct = safeDiv (depletionRate cur) (depletionRate prv)\<rparr>,
      yc_consumption = \<lparr>prev = consumption prv, curr = consumption cur,
                        changePct = safeDiv (consumption cur) (consumption prv)\<rparr>,
      yc_ph = \<lparr>prev = ph prv, curr = ph cur, changePct = safeDiv (ph cur) (ph prv)\<rparr>\<rparr>"

definition getYearlyChanges :: "observation list \<Rightarrow> string \<Rightarrow> yearly_change list" where
  "getYearlyChanges waterData locationName =
     (let records = getWaterByLocation waterData locationName
      in if length records < 2 then []
         else map (\<lambda>(prv, cur). change_of prv cur) (zip records (tl records)))"

subsection \<open>Rankings\<close>

record ranking_row =
  rk_location :: string
  rk_waterScore :: real
  rk_status :: string
  rk_statusColor :: string
  rk_scarcityLevel :: string
  rk_groundwaterLevel :: real
  rk_rainfall :: real
  rk_depletionRate :: real
  rk_trend :: string

record ranking = ranking_row +
  rank :: nat

text \<open>The function mapped over \<open>Object.values(latestMap)\<close>.\<close>

definition rank_row :: "observation list \<Rightarrow> observation \<Rightarrow> ranking_row" where
  "rank_row waterData d =
     (let enr = enrichRecord d;
          records = getWaterByLocation waterData (location d);
          trend = (if length records \<ge> 2
                   then trend_of (waterScore enr
                          - calculateWaterScore (records ! (length records - 2)))
                   else ''stable'')
      in \<lparr>rk_location = location d,
          rk_waterScore = waterScore enr,
          rk_status = status enr,
          rk_statusColor = statusColor enr,
          rk_scarcityLevel = scarcityLevel d,
          rk_groundwaterLevel = groundwaterLevel d,
          rk_rainfall = rainfall d,
          rk_depletionRate = depletionRate d,
          rk_trend = trend\<rparr>)"

text \<open>
  \<open>getRankings()\<close>: the stable sort with comparator \<open>b.waterScore - a.waterScore\<close>
  is the stable sort by ascending negated score; \<open>forEach\<close> then numbers the rows
  from 1.
\<close>

definition getRankings :: "observation list \<Rightarrow> ranking list" where
  "getRankings waterData =
     (let ranked = map (rank_row waterData) (Object_values (build_latestMap waterData));
          sorted = sort_key (\<lambda>r. - rk_waterScore r) ranked
      in map (\<lambda>(item, i). ranking_row.extend item (ranking.fields (i + 1)))
           (zip sorted [0 ..< length sorted]))"

section \<open>Forecast engine (utils/waterScore)\<close>

record regression =
  slope :: real
  intercept :: real

record reg_sums =
  sumX :: real
  sumY :: real
  sumXY :: real
  sumX2 :: real

text \<open>One iteration of \<open>for (const { x, y } of points)\<close>.\<close>

definition sums_step :: "reg_sums \<Rightarrow> real \<times> real \<Rightarrow> reg_sums" where
  "sums_step s p =
     (case p of (x, y) \<Rightarrow>
        \<lparr>sumX = sumX s + x, sumY = sumY s + y,
         sumXY = sumXY s + x * y, sumX2 = sumX2 s + x * x\<rparr>)"

text \<open>
  \<open>linearRegression(points)\<close>. With two points or more and the denominator 0
  the program divides by zero and its slope and intercept are \<open>NaN\<close> or
  infinite: that is \<open>Inl NonFinite\<close>.
\<close>

definition linearRegression :: "(real \<times> real) list \<Rightarrow> js_error + regression" where
  "linearRegression points =
     (let n = real (length points)
      in if length points < 2 then Inr \<lparr>slope = 0, intercept = 0\<rparr>
         else
           (let s = foldl sums_step \<lparr>sumX = 0, sumY = 0, sumXY = 0, sumX2 = 0\<rparr> points;
                denominator = n * sumX2 s - sumX s * sumX s
            in if denominator = 0 then Inl NonFinite
               else
                 (let sl = (n * sumXY s - sumX s * sumY s) / denominator;
                      ic = (sumY s - sl * sumX s) / n
                  in Inr \<lparr>slope = sl, intercept = ic\<rparr>)))"

definition calcResidualStdError :: "(real \<times> real) list \<Rightarrow> regression \<Rightarrow> real" where
  "calcResidualStdError points reg =
     (if length points < 3 then 0
      else
        (let residuals = map (\<lambda>(x, y). (y - (slope reg * x + intercept reg)) ^ 2) points;
             sse = foldl (\<lambda>a b. a + b) 0 residuals
         in sqrt (sse / (real (length points) - 2))))"

record interval =
  lower :: real
  upper :: real

record prediction =
  p_year :: int
  p_groundwaterLevel :: real
  groundwaterLevelCI :: interval
  p_rainfall :: real
  rainfallCI :: interval
  p_depletionRate :: real
  depletionRateCI :: interval
  confidenceLevel :: string

text \<open>
  The body of \<open>for (let i = 1; i <= yearsAhead; i++)\<close>, for a history of
  \<open>n\<close> records.
\<close>

definition predict_step ::
  "nat \<Rightarrow> int \<Rightarrow> regression \<Rightarrow> regression \<Rightarrow> regression \<Rightarrow> real \<Rightarrow> real \<Rightarrow> real
   \<Rightarrow> int \<Rightarrow> prediction" where
  "predict_step n lastYear wlReg rfReg dpReg wlResiduals rfResiduals dpResiduals i =
     (let yr = lastYear + i;
          confidenceMultiplier =
            1.96 * sqrt (1 + 1 / real n + real_of_int (i * i) / (real n * 3));
          wlPred = toFixed (slope wlReg * real_of_int yr + intercept wlReg) 2;
          rfPred = toFixed (slope rfReg * real_of_int yr + intercept rfReg) 1;
          dpPred = toFixed (slope dpReg * real_of_int yr + intercept dpReg) 2
      in \<lparr>p_year = yr,
          p_groundwaterLevel = max 0 wlPred,
          groundwaterLevelCI =
            \<lparr>lower = max 0 (toFixed (wlPred - wlResiduals * confidenceMultiplier) 2),
             upper = toFixed (wlPred + wlResiduals * confidenceMultiplier) 2\<rparr>,
          p_rainfall = max 0 rfPred,
          rainfallCI =
            \<lparr>lower = max 0 (toFixed (rfPred - rfResiduals * confidenceMultiplier) 1),
             upper = toFixed (rfPred + rfResiduals * confidenceMultiplier) 1\<rparr>,
          p_depletionRate = max 0 dpPred,
          depletionRateCI =
            \<lparr>lower = max 0 (toFixed (dpPred - dpResiduals * confidenceMultiplier) 2),
             upper = toFixed (dpPred + dpResiduals * confidenceMultiplier) 2\<rparr>,
          confidenceLevel = (if i \<le> 1 then ''high'' else if i \<le> 2 then ''medium'' else ''low'')\<rparr>)"

text \<open>
  \<open>predictFuture(historicalData, yearsAhead)\<close>. With \<open>yearsAhead < 1\<close> the loop
  does not run. Otherwise an empty history makes \<open>lastYear\<close> the maximum of no
  numbers, \<open>-Infinity\<close>, and a regression that divided by zero makes every
  predicted value \<open>NaN\<close>: both are \<open>Inl NonFinite\<close>.
\<close>

definition predictFuture :: "observation list \<Rightarrow> int \<Rightarrow> js_error + prediction list" where
  "predictFuture historicalData yearsAhead =
     (let waterLevelPoints = map (\<lambda>d. (real_of_int (year d), groundwaterLevel d)) historicalData;
          rainfallPoints = map (\<lambda>d. (real_of_int (year d), rainfall d)) historicalData;
          depletionPoints = map (\<lambda>d. (real_of_int (year d), depletionRate d)) historicalData
      in if yearsAhead < 1 then Inr []
         else if historicalData = [] then Inl NonFinite
         else
           (case (linearRegression waterLevelPoints, linearRegression rainfallPoints,
                  linearRegression depletionPoints) of
              (Inr wlReg, Inr rfReg, Inr dpReg) \<Rightarrow>
                (let wlResiduals = calcResidualStdError waterLevelPoints wlReg;
                     rfResiduals = calcResidualStdError rainfallPoints rfReg;
                     dpResiduals = calcResidualStdError depletionPoints dpReg;
                     lastYear = Max (set (map year historicalData))
                 in Inr (map (predict_step (length historicalData) lastYear wlReg rfReg dpReg
                                wlResiduals rfResiduals dpResiduals) [1 .. yearsAhead]))
            | _ \<Rightarrow> Inl NonFinite))"

section \<open>The predictions endpoint (controllers/waterController)\<close>

text \<open>
  The JSON answer with its HTTP status; a field the answer does not have is
  \<open>None\<close>.
\<close>

record response =
  status_code :: nat
  success :: bool
  res_message :: "string option"
  predictions :: "(js_error + prediction list) option"
  basedOn :: "nat option"

text \<open>
  \<open>getPredictions\<close>: \<open>years\<close> is \<open>parseInt(req.query.years)\<close>, \<open>None\<close> where
  that is \<open>NaN\<close>; \<open>|| 3\<close> replaces \<open>NaN\<close> and 0 by 3.
\<close>

definition getPredictions :: "observation list \<Rightarrow> string \<Rightarrow> int option \<Rightarrow> response" where
  "getPredictions waterData loc years_param =
     (let yearsAhead = (case years_param of None \<Rightarrow> 3 | Some k \<Rightarrow> if k = 0 then 3 else k);
          dat = getWaterByLocation waterData loc
      in if length dat < 2
         then \<lparr>status_code = 400, success = False,
               res_message = Some ''Need at least 2 years of data for predictions'',
               predictions = None, basedOn = None\<rparr>
         else \<lparr>status_code = 200, success = True, res_message = None,
               predictions = Some (predictFuture dat yearsAhead),
               basedOn = Some (length dat)\<rparr>)"

section \<open>Sample inputs\<close>

text \<open>
  A row with the given location, year, groundwater level, rainfall and depletion
  rate, and fixed values in the other fields.
\<close>

definition sample_row :: "string \<Rightarrow> int \<Rightarrow> real \<Rightarrow> real \<Rightarrow> real \<Rightarrow> observation" where
  "sample_row loc yr level rain depletion =
     \<lparr>location = loc, year = yr, consumption = 300, perCapitaUsage = 120,
      agriculturalUsage = 150, industrialUsage = 60, householdUsage = 90,
      rainfall = rain, depletionRate = depletion, scarcityLevel = ''Moderate'',
      ph = 7.2, groundwaterLevel = level, latitude = None, longitude = None,
      lastUpdated = 0\<rparr>"

text \<open>Two clocks that read different times.\<close>

definition clock_a :: "int \<Rightarrow> int" where
  "clock_a yr = 1700000000000"

definition clock_b :: "int \<Rightarrow> int" where
  "clock_b yr = 1700000000007"

text \<open>
  Histories of one location with a groundwater level that rises every year:
  three years and four years.
\<close>

definition rising3 :: "observation list" where
  "rising3 = [sample_row ''Nashik'' 2018 10 800 4, sample_row ''Nashik'' 2019 11 800 4,
              sample_row ''Nashik'' 2020 12 800 4]"

definition rising4 :: "observation list" where
  "rising4 = [sample_row ''Nashik'' 2017 9 800 4, sample_row ''Nashik'' 2018 10 800 4,
              sample_row ''Nashik'' 2019 11 800 4, sample_row ''Nashik'' 2020 12 800 4]"

text \<open>
  A store with two locations, one of them with two years.
\<close>

definition two_locations :: "observation list" where
  "two_locations = [sample_row ''Nashik'' 2019 8 800 4, sample_row ''Sinnar'' 2020 9 700 5,
                    sample_row ''Nashik'' 2020 8 800 4]"

text \<open>
  A location whose first year has 0 in groundwater level, rainfall and depletion
  rate, as \<open>parseCSV\<close> fills in for missing cells.
\<close>

definition zero_prev :: "observation list" where
  "zero_prev = [sample_row ''Nashik'' 2019 0 0 0, sample_row ''Nashik'' 2020 5 800 4]"

text \<open>
  A store in which \<open>Nashik\<close> has a single year.
\<close>

definition single_year :: "observation list" where
  "single_year = [sample_row ''Nashik'' 2020 8 800 4, sample_row ''Sinnar'' 2019 9 700 5,
                  sample_row ''Sinnar'' 2020 9 700 5]"

text \<open>
  A two-year history whose groundwater level falls from 10 to 2.
\<close>

definition falling2 :: "observation list" where
  "falling2 = [sample_row ''Nashik'' 2018 10 800 4, sample_row ''Nashik'' 2019 2 800 4]"

text \<open>
  Two locations with equal water scores, and a location named like a property of
  \<open>Object.prototype\<close>.
\<close>

definition tied_locations :: "observation list" where
  "tied_locations = [sample_row ''Nashik'' 2020 8 800 4, sample_row ''Sinnar'' 2020 8 800 4]"

definition prototype_named :: "observation list" where
  "prototype_named = [sample_row ''constructor'' 2020 8 800 4]"

section \<open>Properties of the score engine\<close>

lemma normalize_js_mono:
  assumes "mn < mx" and "v \<le> w"
  shows "normalize_js v mn mx False \<le> normalize_js w mn mx False"
    and "normalize_js w mn mx True \<le> normalize_js v mn mx True"
proof -
  have "max mn (min mx v) - mn \<le> max mn (min mx w) - mn"
    using assms(2) by (simp add: max_def min_def)
  then have "(max mn (min mx v) - mn) / (mx - mn) \<le> (max mn (min mx w) - mn) / (mx - mn)"
    using assms(1) by (simp add: divide_right_mono)
  then have le: "(max mn (min mx v) - mn) / (mx - mn) * 100
                 \<le> (max mn (min mx w) - mn) / (mx - mn) * 100"
    by (rule mult_right_mono) simp
  from le show "normalize_js v mn mx False \<le> normalize_js w mn mx False"
    unfolding normalize_js_def Let_def by simp
  from le show "normalize_js w mn mx True \<le> normalize_js v mn mx True"
    unfolding normalize_js_def Let_def by simp
qed

lemma Math_round_mono: "x \<le> y \<Longrightarrow> Math_round x \<le> Math_round y"
  by (simp add: Math_round_def floor_mono)

text \<open>
  Claim C7. For every observation, whatever real numbers its groundwaterLevel,
  rainfall, depletionRate and ph are, calculateWaterScore is an integer between
  0 and 100.
\<close>

theorem calculateWaterScore_range:
  "\<exists>k::int. calculateWaterScore d = of_int k \<and> 0 \<le> k \<and> k \<le> 100"
proof -
  define s where "s = max 0 (min 100
     (normalize_js (groundwaterLevel d) waterLevel_min waterLevel_max True * 0.35
      + normalize_js (rainfall d) rainfall_min rainfall_max False * 0.25
      + normalize_js (depletionRate d) depletion_min depletion_max True * 0.30
      + normalize_js \<bar>ph d - ph_ideal\<bar> 0 ph_range True * 0.10))"
  have eq: "calculateWaterScore d = of_int \<lfloor>s + 1 / 2\<rfloor>"
    by (simp add: calculateWaterScore_def Let_def Math_round_def s_def)
  have "0 \<le> s" and "s \<le> 100"
    by (simp_all add: s_def)
  then have "0 \<le> \<lfloor>s + 1 / 2\<rfloor>" and "\<lfloor>s + 1 / 2\<rfloor> \<le> 100"
    by (simp_all add: floor_le_iff le_floor_iff)
  with eq show ?thesis by blast
qed

text \<open>
  Claim C8. Of two observations that differ only in rainfall, the one with the
  higher rainfall never has the lower water score; of two that differ only in
  depletionRate, the one with the higher depletionRate never has the higher
  water score.
\<close>

theorem calculateWaterScore_monotone:
  "(rainfall d \<le> r \<longrightarrow> calculateWaterScore d \<le> calculateWaterScore (d\<lparr>rainfall := r\<rparr>))
   \<and> (depletionRate d \<le> q \<longrightarrow>
        calculateWaterScore (d\<lparr>depletionRate := q\<rparr>) \<le> calculateWaterScore d)"
proof (intro conjI impI)
  assume le: "rainfall d \<le> r"
  have "normalize_js (rainfall d) rainfall_min rainfall_max False
        \<le> normalize_js r rainfall_min rainfall_max False"
    by (rule normalize_js_mono(1) [OF _ le]) (simp add: rainfall_min_def rainfall_max_def)
  then show "calculateWaterScore d \<le> calculateWaterScore (d\<lparr>rainfall := r\<rparr>)"
    unfolding calculateWaterScore_def Let_def
    by (intro Math_round_mono) (simp add: max_def min_def)
next
  assume le: "depletionRate d \<le> q"
  have "normalize_js q depletion_min depletion_max True
        \<le> normalize_js (depletionRate d) depletion_min depletion_max True"
    by (rule normalize_js_mono(2) [OF _ le]) (simp add: depletion_min_def depletion_max_def)
  then show "calculateWaterScore (d\<lparr>depletionRate := q\<rparr>) \<le> calculateWaterScore d"
    unfolding calculateWaterScore_def Let_def
    by (intro Math_round_mono) (simp add: max_def min_def)
qed

text \<open>
  An instance: raising the rainfall of a sample row from 800 to 900 and its
  depletion rate from 4 to 6.
\<close>

theorem calculateWaterScore_monotone_witness:
  "rainfall (sample_row ''Nashik'' 2020 8 800 4) \<le> 900
   \<and> calculateWaterScore (sample_row ''Nashik'' 2020 8 800 4)
       \<le> calculateWaterScore ((sample_row ''Nashik'' 2020 8 800 4)\<lparr>rainfall := 900\<rparr>)
   \<and> depletionRate (sample_row ''Nashik'' 2020 8 800 4) \<le> 6
   \<and> calculateWaterScore ((sample_row ''Nashik'' 2020 8 800 4)\<lparr>depletionRate := 6\<rparr>)
       \<le> calculateWaterScore (sample_row ''Nashik'' 2020 8 800 4)"
  using calculateWaterScore_monotone [of "sample_row ''Nashik'' 2020 8 800 4" 900 6]
  by (simp add: sample_row_def)

section \<open>Properties of the generator\<close>

text \<open>
  Claim C1, as the program has it. Two calls of generateMultiYearData with the
  same base row return series that agree in every field of every record except
  \<open>lastUpdated\<close>, whatever the clock reads during either call; the
  \<open>lastUpdated\<close> of a synthesized record is the time of the call.
\<close>

theorem generator_deterministic_up_to_clock:
  "map (\<lambda>r. r\<lparr>lastUpdated := 0\<rparr>) (generateMultiYearData clock1 baseRow)
   = map (\<lambda>r. r\<lparr>lastUpdated := 0\<rparr>) (generateMultiYearData clock2 baseRow)"
  by (simp add: generateMultiYearData_def synthesize_def Let_def)

text \<open>
  Two calls with the same base row at different times return different series:
  the synthesized records differ in \<open>lastUpdated\<close>.
\<close>

theorem generator_clock_counterexample:
  "generateMultiYearData clock_a (sample_row ''Nashik'' 2018 8 800 4)
   \<noteq> generateMultiYearData clock_b (sample_row ''Nashik'' 2018 8 800 4)"
proof
  assume "generateMultiYearData clock_a (sample_row ''Nashik'' 2018 8 800 4)
          = generateMultiYearData clock_b (sample_row ''Nashik'' 2018 8 800 4)"
  then have "map lastUpdated (generateMultiYearData clock_a (sample_row ''Nashik'' 2018 8 800 4))
             = map lastUpdated (generateMultiYearData clock_b (sample_row ''Nashik'' 2018 8 800 4))"
    by simp
  then show False
    by (simp add: generateMultiYearData_def years_def synthesize_def Let_def sample_row_def
        clock_a_def clock_b_def)
qed

section \<open>Properties of the alert engine\<close>

text \<open>
  The counter of a run never exceeds its start plus the number of comparisons.
\<close>

lemma consecutive_le: "consecutive worse c xs \<le> c + (length xs - 1)"
proof (induction worse c xs rule: consecutive.induct)
  case (1 worse c p q rest)
  then show ?case by (simp split: if_splits)
qed simp_all

lemma threshold_titles:
  "a \<in> set (threshold_alerts ts d) \<Longrightarrow> title a \<noteq> ''Sustained Water Level Decline''"
  by (auto simp: threshold_alerts_def split: if_splits)

text \<open>
  A history of three records allows two comparisons, so no run reaches 3.
\<close>

lemma three_points_no_sustained_decline:
  assumes "length h = 3"
  shows "sustained_decline (generateAlerts ts d (Some h)) = []"
proof -
  have "consecutive (\<lambda>p q. groundwaterLevel q > groundwaterLevel p) 0 (sort_key year h) \<le> 2"
    using consecutive_le [of "\<lambda>p q. groundwaterLevel q > groundwaterLevel p" 0 "sort_key year h"]
      assms by simp
  then have "sustained_decline (trend_alerts ts d h) = []"
    by (simp add: sustained_decline_def trend_alerts_def Let_def)
  moreover have "sustained_decline (threshold_alerts ts d) = []"
    using threshold_titles [of _ ts d] by (auto simp: sustained_decline_def filter_empty_conv)
  ultimately show ?thesis
    using assms by (simp add: generateAlerts_def sustained_decline_def)
qed

text \<open>
  For three years with groundwater levels 10, 11 and 12 no sustained-decline
  alert is emitted.
\<close>

theorem three_rising_years_counterexample:
  "sustained_decline (generateAlerts ''2024-06-01T00:00:00.000Z''
      (sample_row ''Nashik'' 2020 12 800 4) (Some rising3)) = []"
  by (rule three_points_no_sustained_decline) (simp add: rising3_def)

lemma trend_alerts_sustained:
  assumes "consecutive (\<lambda>p q. groundwaterLevel q > groundwaterLevel p) 0 (sort_key year h) = k"
    and "k \<ge> 3"
  shows "\<exists>x \<in> set (trend_alerts ts d h).
           title x = ''Sustained Water Level Decline'' \<and> alert_value x = Num (real k)
           \<and> alert_type x = ''warning'' \<and> category x = ''Trend''"
  unfolding trend_alerts_def Let_def assms(1) using assms(2) by simp

lemma generateAlerts_with_history:
  "length h \<ge> 3 \<Longrightarrow>
   generateAlerts ts d (Some h) = threshold_alerts ts d @ trend_alerts ts d h"
  by (simp add: generateAlerts_def)

text \<open>
  Claim C2, as the program has it. For every history of exactly 4 chronological
  observations whose groundwaterLevel rises strictly from each year to the next
  (3 consecutive year-over-year rises), generateAlerts emits the sustained-decline
  trend alert with value 3.
\<close>

theorem four_rising_years_alert:
  assumes "year a < year b" and "year b < year c" and "year c < year e"
    and "groundwaterLevel a < groundwaterLevel b"
    and "groundwaterLevel b < groundwaterLevel c"
    and "groundwaterLevel c < groundwaterLevel e"
  shows "\<exists>x \<in> set (generateAlerts ts d (Some [a, b, c, e])).
           title x = ''Sustained Water Level Decline'' \<and> alert_value x = Num 3
           \<and> alert_type x = ''warning'' \<and> category x = ''Trend''"
proof -
  define h where "h = [a, b, c, e]"
  have "sorted (map year h)"
    using assms(1-3) by (simp add: h_def)
  then have srt: "sort_key year h = h"
    by (rule sort_key_id_if_sorted)
  have "consecutive (\<lambda>p q. groundwaterLevel q > groundwaterLevel p) 0 h = 3"
    using assms(4-6) by (simp add: h_def)
  then have run: "consecutive (\<lambda>p q. groundwaterLevel q > groundwaterLevel p) 0
                    (sort_key year h) = 3"
    by (simp only: srt)
  have "\<exists>x \<in> set (trend_alerts ts d h).
           title x = ''Sustained Water Level Decline'' \<and> alert_value x = Num (real (3::nat))
           \<and> alert_type x = ''warning'' \<and> category x = ''Trend''"
    by (rule trend_alerts_sustained [OF run]) simp
  moreover have "generateAlerts ts d (Some h) = threshold_alerts ts d @ trend_alerts ts d h"
    by (rule generateAlerts_with_history) (simp add: h_def)
  ultimately have "\<exists>x \<in> set (generateAlerts ts d (Some h)).
           title x = ''Sustained Water Level Decline'' \<and> alert_value x = Num 3
           \<and> alert_type x = ''warning'' \<and> category x = ''Trend''"
    by auto
  then show ?thesis
    by (simp only: h_def)
qed

text \<open>
  An instance: the years 2017 to 2020 with levels 9, 10, 11 and 12.
\<close>

theorem four_rising_years_alert_witness:
  "year (rising4 ! 0) < year (rising4 ! 1) \<and> year (rising4 ! 1) < year (rising4 ! 2)
   \<and> year (rising4 ! 2) < year (rising4 ! 3)
   \<and> groundwaterLevel (rising4 ! 0) < groundwaterLevel (rising4 ! 1)
   \<and> groundwaterLevel (rising4 ! 1) < groundwaterLevel (rising4 ! 2)
   \<and> groundwaterLevel (rising4 ! 2) < groundwaterLevel (rising4 ! 3)
   \<and> (\<exists>x \<in> set (generateAlerts ''2024-06-01T00:00:00.000Z''
                    (sample_row ''Nashik'' 2020 12 800 4) (Some rising4)).
          title x = ''Sustained Water Level Decline'' \<and> alert_value x = Num 3
          \<and> alert_type x = ''warning'' \<and> category x = ''Trend'')"
proof -
  have hyps: "year (rising4 ! 0) < year (rising4 ! 1)" "year (rising4 ! 1) < year (rising4 ! 2)"
    "year (rising4 ! 2) < year (rising4 ! 3)"
    "groundwaterLevel (rising4 ! 0) < groundwaterLevel (rising4 ! 1)"
    "groundwaterLevel (rising4 ! 1) < groundwaterLevel (rising4 ! 2)"
    "groundwaterLevel (rising4 ! 2) < groundwaterLevel (rising4 ! 3)"
    by (simp_all add: rising4_def sample_row_def)
  have list: "[rising4 ! 0, rising4 ! 1, rising4 ! 2, rising4 ! 3] = rising4"
    by (simp add: rising4_def)
  have "\<exists>x \<in> set (generateAlerts ''2024-06-01T00:00:00.000Z''
                    (sample_row ''Nashik'' 2020 12 800 4)
                    (Some [rising4 ! 0, rising4 ! 1, rising4 ! 2, rising4 ! 3])).
          title x = ''Sustained Water Level Decline'' \<and> alert_value x = Num 3
          \<and> alert_type x = ''warning'' \<and> category x = ''Trend''"
    by (rule four_rising_years_alert [OF hyps])
  then show ?thesis
    using hyps unfolding list by blast
qed

section \<open>Properties of the data store\<close>

lemma toFixed_0 [simp]: "toFixed 0 d = 0"
  by (simp add: toFixed_def)

text \<open>
  \<open>getYearlyChanges\<close> at a previous value of 0: \<open>safeDiv\<close> returns the
  constant 0, for every metric and every pair of consecutive years.
\<close>

lemma safeDiv_zero: "safeDiv a 0 = Inr 0"
  by (simp add: safeDiv_def)

lemma getYearlyChanges_nth:
  assumes "Suc i < length (getWaterByLocation waterData loc)"
  shows "getYearlyChanges waterData loc ! i
         = change_of (getWaterByLocation waterData loc ! i)
             (getWaterByLocation waterData loc ! Suc i)"
  using assms by (simp add: getYearlyChanges_def Let_def nth_tl)

lemma yearly_change_zero_previous:
  assumes "Suc i < length (getWaterByLocation waterData loc)"
    and "groundwaterLevel (getWaterByLocation waterData loc ! i) = 0"
  shows "changePct (yc_waterLevel (getYearlyChanges waterData loc ! i)) = Inr 0"
  using assms(2) by (simp add: getYearlyChanges_nth [OF assms(1)] change_of_def safeDiv_zero)

text \<open>
  Doubles: an integer below \<open>2^53\<close> in magnitude is a double, and a number whose
  magnitude lies between \<open>2^52\<close> and \<open>2^53\<close> units \<open>s\<close> of the last place is
  rounded to a multiple of \<open>s\<close>.
\<close>

lemma round_half_even_int [simp]: "round_half_even (of_int m) = m"
  by (simp add: round_half_even_def)

lemma to_double_int:
  assumes "\<bar>k\<bar> < 2 ^ 53"
  shows "to_double (of_int k) = Inr (of_int k)"
proof (cases "k = 0")
  case True
  then show ?thesis by (simp add: to_double_def)
next
  case False
  define x :: real where "x = of_int k"
  define L where "L = \<lfloor>log 2 \<bar>x\<bar>\<rfloor>"
  have x1: "1 \<le> \<bar>x\<bar>"
    using False by (simp add: x_def)
  have x53: "\<bar>x\<bar> < 2 ^ 53"
    using assms unfolding x_def by (metis of_int_abs of_int_less_numeral_power_cancel_iff)
  have "0 \<le> log 2 \<bar>x\<bar>"
    using x1 by simp
  then have L0: "0 \<le> L"
    by (simp add: L_def)
  have "log 2 \<bar>x\<bar> < 53"
    using x1 x53 by (simp add: log_less_iff powr_realpow [symmetric])
  then have L52: "L \<le> 52"
    unfolding L_def by linarith
  define n where "n = nat (52 - L)"
  have e: "max (L - 52) (- 1074) = - int n"
    using L0 L52 by (simp add: n_def)
  have pw: "(2::real) powr of_int (- int n) = 1 / 2 ^ n"
    by (simp add: powr_minus powr_realpow divide_inverse)
  have q: "x / (1 / 2 ^ n) = of_int (k * 2 ^ n)"
    by (simp add: x_def)
  have y: "of_int (round_half_even (x / (1 / 2 ^ n))) * (1 / 2 ^ n) = x"
    unfolding q round_half_even_int by (simp add: x_def)
  have nov: "\<not> 2 ^ 1024 \<le> \<bar>x\<bar>"
  proof -
    have "(2::real) ^ 53 \<le> 2 ^ 1024"
      by (rule power_increasing) simp_all
    then show ?thesis using x53 by linarith
  qed
  have "x \<noteq> 0" using x1 by auto
  then have "to_double x = Inr x"
    unfolding to_double_def Let_def L_def [symmetric] e pw y using nov by simp
  then show ?thesis by (simp add: x_def)
qed

lemma to_double_scaled:
  assumes "s = 2 powr of_int e" and "- 1074 \<le> e"
    and "2 ^ 52 * s \<le> \<bar>x\<bar>" and "\<bar>x\<bar> < 2 ^ 53 * s"
  shows "to_double x
         = (if 2 ^ 1024 \<le> \<bar>of_int (round_half_even (x / s)) * s\<bar> then Inl NonFinite
            else Inr (of_int (round_half_even (x / s)) * s))"
proof -
  have s0: "0 < s" using assms(1) by simp
  have "0 < 2 ^ 52 * s"
    using s0 by simp
  then have x0: "0 < \<bar>x\<bar>"
    using assms(3) by linarith
  have lo: "2 powr of_int (e + 52) \<le> \<bar>x\<bar>"
    using assms(3) by (simp add: assms(1) powr_add powr_realpow [symmetric] mult.commute)
  have hi: "\<bar>x\<bar> < 2 powr (of_int (e + 52) + 1)"
    using assms(4) by (simp add: assms(1) powr_add powr_realpow [symmetric] mult.commute)
  have "\<lfloor>log 2 \<bar>x\<bar>\<rfloor> = e + 52"
    using lo hi x0 by (simp add: floor_log_eq_powr_iff)
  then have "max (\<lfloor>log 2 \<bar>x\<bar>\<rfloor> - 52) (- 1074) = e"
    using assms(2) by simp
  then show ?thesis
    using x0 by (simp add: to_double_def Let_def assms(1))
qed

lemma pw_neg: "(1::real) / 2 ^ n = 2 powr of_int (- int n)"
  by (simp add: powr_minus powr_realpow divide_inverse)

lemma pw_pos: "(2::real) ^ n = 2 powr of_int (int n)"
  by (simp add: powr_realpow)

lemma doubles: "to_double 5 = Inr 5" "to_double 500 = Inr 500" "to_double 800 = Inr 800"
  "to_double 80000 = Inr 80000" "to_double 4 = Inr 4" "to_double 400 = Inr 400"
  using to_double_int [of 5] to_double_int [of 500] to_double_int [of 800]
    to_double_int [of 80000] to_double_int [of 4] to_double_int [of 400]
  by simp_all

lemma yoy_pct_steps:
  assumes "to_double (cur - prv) = Inr d"
    and "to_double (d / or_default prv 1) = Inr q"
    and "to_double (q * 100) = Inr p"
    and "to_double (toFixed p 1) = r"
  shows "yoy_pct cur prv = r"
  using assms by (simp add: yoy_pct_def then_double_def)

lemma yoy_pct_overflow:
  assumes "to_double (cur - prv) = Inr d"
    and "to_double (d / or_default prv 1) = Inr q"
    and "to_double (q * 100) = Inl NonFinite"
  shows "yoy_pct cur prv = Inl NonFinite"
  using assms by (simp add: yoy_pct_def then_double_def)

text \<open>
  The percentage of \<open>getLocationSummary\<close> at a previous value of 0: the divisor
  is 1, so the result is 100 times the current value, here for the current
  values 5, 800 and 4.
\<close>

lemma yoy_pct_values:
  "yoy_pct 5 0 = Inr 500" "yoy_pct 800 0 = Inr 80000" "yoy_pct 4 0 = Inr 400"
  by (simp_all add: yoy_pct_def then_double_def or_default_def doubles toFixed_def)

text \<open>
  The percentage follows the program's doubles: for the current value 0.0015 the
  product with 100 is the double just below 0.15 and the result is the double
  0.1; for the current value \<open>10^307\<close> the product overflows and the result is
  \<open>Infinity\<close>.
\<close>

lemma yoy_pct_small_value:
  "yoy_pct (15 / 10000) 0 = Inr (3602879701896397 / 36028797018963968)"
proof -
  define d :: real where "d = 6917529027641082 / 2 ^ 62"
  define p :: real where "p = 5404319552844595 / 2 ^ 55"
  have a1: "to_double (15 / 10000 - 0) = Inr d"
    using to_double_scaled [OF pw_neg [of 62], of "15 / 10000 - 0"]
    by (simp add: round_half_even_def d_def)
  have a2: "to_double (d / or_default 0 1) = Inr d"
    using to_double_scaled [OF pw_neg [of 62], of "d / or_default 0 1"]
    by (simp add: round_half_even_def d_def or_default_def)
  have a3: "to_double (d * 100) = Inr p"
    using to_double_scaled [OF pw_neg [of 55], of "d * 100"]
    by (simp add: round_half_even_def d_def p_def)
  have a4: "toFixed p 1 = 1 / 10"
    by (simp add: toFixed_def p_def)
  have a5: "to_double (1 / 10) = Inr (3602879701896397 / 36028797018963968)"
    using to_double_scaled [OF pw_neg [of 56], of "1 / 10"]
    by (simp add: round_half_even_def)
  show ?thesis
    by (rule yoy_pct_steps [OF a1 a2 a3]) (simp only: a4 a5)
qed

lemma yoy_pct_overflows: "yoy_pct (10 ^ 307) 0 = Inl NonFinite"
proof -
  define d :: real where "d = 8016673440035891 * 2 ^ 967"
  have a1: "to_double (10 ^ 307 - 0) = Inr d"
    using to_double_scaled [OF pw_pos [of 967], of "10 ^ 307 - 0"]
    by (simp add: round_half_even_def d_def)
  have a2: "to_double (d / or_default 0 1) = Inr d"
    using to_double_scaled [OF pw_pos [of 967], of "d / or_default 0 1"]
    by (simp add: round_half_even_def d_def or_default_def)
  have a3: "to_double (d * 100) = Inl NonFinite"
    using to_double_scaled [OF pw_pos [of 974], of "d * 100"]
    by (simp add: round_half_even_def d_def)
  show ?thesis
    by (rule yoy_pct_overflow [OF a1 a2 a3])
qed

text \<open>
  Claim C3 does not hold of the program. For the series with groundwater level 0
  in 2019 and 5 in 2020, the previous value of the pair is 0:
  \<open>getYearlyChanges\<close> reports a change of 0 percent for it, and the yoyChanges
  of \<open>getLocationSummary\<close> report 500 percent for the same pair, where the claim
  says 0.
\<close>

theorem summary_change_at_zero_previous:
  "map_option (map waterLevelChange \<circ> yoyChanges) (getLocationSummary zero_prev ''Nashik'')
     = Some [Inr 500]
   \<and> map (changePct \<circ> yc_waterLevel) (getYearlyChanges zero_prev ''Nashik'') = [Inr 0]"
proof -
  have recs: "getWaterByLocation zero_prev ''Nashik''
              = [sample_row ''Nashik'' 2019 0 0 0, sample_row ''Nashik'' 2020 5 800 4]"
    by (simp add: getWaterByLocation_def zero_prev_def sample_row_def)
  have lvl: "groundwaterLevel (sample_row ''Nashik'' 2019 0 0 0) = 0"
    "groundwaterLevel (sample_row ''Nashik'' 2020 5 800 4) = 5"
    by (simp_all add: sample_row_def)
  have "map_option (map waterLevelChange \<circ> yoyChanges) (getLocationSummary zero_prev ''Nashik'')
        = Some [yoy_pct 5 0]"
    by (simp add: getLocationSummary_def Let_def recs yoy_of_def lvl)
  moreover have "map (changePct \<circ> yc_waterLevel) (getYearlyChanges zero_prev ''Nashik'')
        = [safeDiv 5 0]"
    by (simp add: getYearlyChanges_def Let_def recs change_of_def lvl)
  ultimately show ?thesis
    by (simp only: yoy_pct_values safeDiv_zero)
qed

subsection \<open>District statistics\<close>

text \<open>
  Every iteration of the tally raises exactly one of the three counters.
\<close>

lemma tally_step_counts:
  "critical_n (tally_step t d) + warning_n (tally_step t d) + safe_n (tally_step t d)
   = critical_n t + warning_n t + safe_n t + 1"
  by (simp add: tally_step_def Let_def)

lemma foldl_tally_counts:
  "critical_n (foldl tally_step t ds) + warning_n (foldl tally_step t ds)
     + safe_n (foldl tally_step t ds)
   = critical_n t + warning_n t + safe_n t + length ds"
proof (induction ds arbitrary: t)
  case Nil
  show ?case by simp
next
  case (Cons d ds)
  show ?case
    using Cons.IH [of "tally_step t d"] tally_step_counts [of t d] by simp
qed

text \<open>
  Claim C9. For every store whose latest-per-location set is not empty,
  getDistrictStats returns statistics with
  safeCount + warningCount + criticalCount = totalLocations, the number of latest
  records.
\<close>

theorem district_counts_partition:
  assumes "Object_values (build_latestMap waterData) \<noteq> []"
  shows "\<exists>s. getDistrictStats waterData = Some s
           \<and> totalLocations s = length (Object_values (build_latestMap waterData))
           \<and> safeCount s + warningCount s + criticalCount s = totalLocations s"
proof -
  let ?arr = "Object_values (build_latestMap waterData)"
  let ?t = "foldl tally_step
              \<lparr>totalWaterLevel = 0, totalRainfall = 0, totalDepletion = 0,
               critical_n = 0, warning_n = 0, safe_n = 0\<rparr> ?arr"
  have "critical_n ?t + warning_n ?t + safe_n ?t = length ?arr"
    using foldl_tally_counts [of "\<lparr>totalWaterLevel = 0, totalRainfall = 0, totalDepletion = 0,
               critical_n = 0, warning_n = 0, safe_n = 0\<rparr>" ?arr] by simp
  then show ?thesis
    using assms by (simp add: getDistrictStats_def Let_def)
qed

text \<open>
  An instance: the store with two locations.
\<close>

theorem district_counts_partition_witness:
  "Object_values (build_latestMap two_locations) \<noteq> []
   \<and> (\<exists>s. getDistrictStats two_locations = Some s
           \<and> totalLocations s = length (Object_values (build_latestMap two_locations))
           \<and> safeCount s + warningCount s + criticalCount s = totalLocations s)"
proof -
  have h: "Object_values (build_latestMap two_locations) \<noteq> []"
    by (simp add: two_locations_def sample_row_def build_latestMap_def latest_step_def
        Object_prototype_names_def Object_values_def array_index_def is_digit_def
        List.map_filter_simps)
  show ?thesis using h district_counts_partition [OF h] by simp
qed

subsection \<open>Rankings\<close>

lemma latest_step_keys:
  "map fst (latest_step m d)
   = (if location d \<in> set Object_prototype_names \<or> location d \<in> set (map fst m)
      then map fst m else map fst m @ [location d])"
proof (cases "map_of m (location d)")
  case None
  then have "location d \<notin> set (map fst m)"
    by (simp add: map_of_eq_None_iff)
  then show ?thesis
    using None by (simp add: latest_step_def)
next
  case (Some e)
  then have "(location d, e) \<in> set m"
    by (rule map_of_SomeD)
  then have "location d \<in> set (map fst m)"
    by force
  then show ?thesis
    using Some by (auto simp: latest_step_def)
qed

lemma latest_step_entries:
  assumes "\<forall>(k, v) \<in> set m. location v = k"
  shows "\<forall>(k, v) \<in> set (latest_step m d). location v = k"
  using assms by (auto simp: latest_step_def split: option.splits if_splits)

lemma build_keys_aux:
  assumes "distinct (map fst m)" and "\<forall>(k, v) \<in> set m. location v = k"
  shows "distinct (map fst (foldl latest_step m ds))
       \<and> set (map fst (foldl latest_step m ds))
           = set (map fst m) \<union> (location ` set ds - set Object_prototype_names)
       \<and> (\<forall>(k, v) \<in> set (foldl latest_step m ds). location v = k)"
  using assms
proof (induction ds arbitrary: m)
  case Nil
  then show ?case by simp
next
  case (Cons d ds)
  have d: "distinct (map fst (latest_step m d))"
    using Cons.prems(1) by (simp add: latest_step_keys)
  have e: "\<forall>(k, v) \<in> set (latest_step m d). location v = k"
    by (rule latest_step_entries [OF Cons.prems(2)])
  have s: "set (map fst (latest_step m d))
           = set (map fst m) \<union> ({location d} - set Object_prototype_names)"
    by (auto simp: latest_step_keys)
  show ?case
    using Cons.IH [OF d e] s by auto
qed

text \<open>
  The keys of \<open>latestMap\<close> are distinct, they are the locations of the store
  that \<open>Object.prototype\<close> does not name, and every value is a record of its key.
\<close>

lemma build_latestMap_props:
  "distinct (map fst (build_latestMap waterData))"
  "set (map fst (build_latestMap waterData)) = location ` set waterData - set Object_prototype_names"
  "\<forall>(k, v) \<in> set (build_latestMap waterData). location v = k"
  using build_keys_aux [of "[]" waterData] by (simp_all add: build_latestMap_def)

lemma map_filter_index:
  "map snd (List.map_filter (\<lambda>(k, v). map_option (\<lambda>i. (i, v)) (array_index k)) obj)
   = map snd (filter (\<lambda>(k, v). array_index k \<noteq> None) obj)"
  by (induction obj) (auto simp: List.map_filter_simps split: option.splits)

lemma mset_filter_split:
  "mset (map snd (filter P obj)) + mset (map snd (filter (\<lambda>x. \<not> P x) obj))
   = mset (map snd obj)"
  by (induction obj) auto

text \<open>
  \<open>Object.values\<close> lists every value once, in some order.
\<close>

lemma mset_Object_values: "mset (Object_values obj) = mset (map snd obj)"
proof -
  let ?ix = "List.map_filter (\<lambda>(k, v). map_option (\<lambda>i. (i, v)) (array_index k)) obj"
  have "mset (map snd (sort_key fst ?ix)) = image_mset snd (mset (sort_key fst ?ix))"
    by simp
  also have "\<dots> = mset (map snd ?ix)"
    by simp
  also have "\<dots> = mset (map snd (filter (\<lambda>(k, v). array_index k \<noteq> None) obj))"
    by (simp only: map_filter_index)
  finally have "mset (Object_values obj)
      = mset (map snd (filter (\<lambda>(k, v). array_index k \<noteq> None) obj))
        + mset (map snd (filter (\<lambda>x. \<not> (case x of (k, v) \<Rightarrow> array_index k \<noteq> None)) obj))"
    by (simp add: Object_values_def case_prod_beta)
  then show ?thesis
    by (simp only: mset_filter_split)
qed

lemma latest_locations:
  "mset (map location (Object_values (build_latestMap waterData)))
   = mset (map fst (build_latestMap waterData))"
proof -
  have "map (location \<circ> snd) (build_latestMap waterData) = map fst (build_latestMap waterData)"
    using build_latestMap_props(3) [of waterData] by (auto simp: case_prod_beta)
  moreover have "mset (map location (Object_values (build_latestMap waterData)))
      = image_mset location (mset (Object_values (build_latestMap waterData)))"
    by simp
  ultimately show ?thesis
    by (simp only: mset_Object_values mset_map [symmetric] map_map)
qed

lemma rank_row_fields:
  "rk_location (rank_row waterData d) = location d"
  "rk_waterScore (rank_row waterData d) = calculateWaterScore d"
  by (simp_all add: rank_row_def enrichRecord_def Let_def observation.extend_def
      enriched.fields_def)

lemma extend_fields:
  "rk_location (ranking_row.extend item (ranking.fields n)) = rk_location item"
  "rk_waterScore (ranking_row.extend item (ranking.fields n)) = rk_waterScore item"
  "rank (ranking_row.extend item (ranking.fields n)) = n"
  by (simp_all add: ranking_row.extend_def ranking.fields_def)

lemma numbered_rows:
  "map rk_location (map (\<lambda>(item, i). ranking_row.extend item (ranking.fields (i + 1)))
                      (zip rows [0 ..< length rows])) = map rk_location rows"
  "map rk_waterScore (map (\<lambda>(item, i). ranking_row.extend item (ranking.fields (i + 1)))
                        (zip rows [0 ..< length rows])) = map rk_waterScore rows"
  "map rank (map (\<lambda>(item, i). ranking_row.extend item (ranking.fields (i + 1)))
               (zip rows [0 ..< length rows])) = [1 ..< Suc (length rows)]"
proof -
  show "map rk_location (map (\<lambda>(item, i). ranking_row.extend item (ranking.fields (i + 1)))
                      (zip rows [0 ..< length rows])) = map rk_location rows"
    by (rule nth_equalityI) (simp_all add: extend_fields)
  show "map rk_waterScore (map (\<lambda>(item, i). ranking_row.extend item (ranking.fields (i + 1)))
                        (zip rows [0 ..< length rows])) = map rk_waterScore rows"
    by (rule nth_equalityI) (simp_all add: extend_fields)
  show "map rank (map (\<lambda>(item, i). ranking_row.extend item (ranking.fields (i + 1)))
               (zip rows [0 ..< length rows])) = [1 ..< Suc (length rows)]"
    by (rule nth_equalityI) (simp_all add: extend_fields del: upt_Suc)
qed

lemma descending_sort:
  "sorted_wrt (\<ge>) (map rk_waterScore (sort_key (\<lambda>r. - rk_waterScore r) rows))"
proof -
  have "sorted (map (\<lambda>r. - rk_waterScore r) (sort_key (\<lambda>r. - rk_waterScore r) rows))"
    by (rule sorted_sort_key)
  then show ?thesis
    by (simp add: sorted_wrt_map)
qed

text \<open>
  Claim C5, as the program has it. For every store in which no location is named
  like a property of \<open>Object.prototype\<close>, getRankings returns exactly one entry
  per distinct location, ordered by non-increasing waterScore (equal scores are
  possible), with the ranks 1 to N in this order.
\<close>

theorem rankings_properties:
  assumes "location ` set waterData \<inter> set Object_prototype_names = {}"
  shows "distinct (map rk_location (getRankings waterData))
       \<and> set (map rk_location (getRankings waterData)) = location ` set waterData
       \<and> length (getRankings waterData) = card (location ` set waterData)
       \<and> sorted_wrt (\<ge>) (map rk_waterScore (getRankings waterData))
       \<and> map rank (getRankings waterData) = [1 ..< Suc (length (getRankings waterData))]"
proof -
  define arr where "arr = Object_values (build_latestMap waterData)"
  define rows where "rows = sort_key (\<lambda>r. - rk_waterScore r) (map (rank_row waterData) arr)"
  have gr: "getRankings waterData
            = map (\<lambda>(item, i). ranking_row.extend item (ranking.fields (i + 1)))
                (zip rows [0 ..< length rows])"
    by (simp add: getRankings_def Let_def rows_def arr_def)
  have len: "length (getRankings waterData) = length rows"
    by (simp add: gr)
  have "mset (map rk_location rows) = image_mset rk_location (mset (map (rank_row waterData) arr))"
    by (simp add: rows_def)
  also have "\<dots> = mset (map location arr)"
    by (simp add: multiset.map_comp comp_def rank_row_fields)
  also have "\<dots> = mset (map fst (build_latestMap waterData))"
    unfolding arr_def by (rule latest_locations)
  finally have ms: "mset (map rk_location (getRankings waterData))
                    = mset (map fst (build_latestMap waterData))"
    by (simp only: gr numbered_rows)
  have keys: "set (map fst (build_latestMap waterData)) = location ` set waterData"
    using assms build_latestMap_props(2) [of waterData] by auto
  have dist: "distinct (map rk_location (getRankings waterData))"
    using mset_eq_imp_distinct_iff [OF ms] build_latestMap_props(1) [of waterData] by simp
  have st: "set (map rk_location (getRankings waterData)) = location ` set waterData"
    using mset_eq_setD [OF ms] keys by simp
  have "length (map rk_location (getRankings waterData))
        = card (set (map rk_location (getRankings waterData)))"
    using dist by (rule distinct_card [symmetric])
  then have card: "length (getRankings waterData) = card (location ` set waterData)"
    by (simp only: st length_map)
  have desc: "sorted_wrt (\<ge>) (map rk_waterScore (getRankings waterData))"
    unfolding gr numbered_rows rows_def by (rule descending_sort)
  have rk: "map rank (getRankings waterData) = [1 ..< Suc (length (getRankings waterData))]"
    unfolding len unfolding gr by (rule numbered_rows(3))
  from dist st card desc rk show ?thesis
    by blast
qed

text \<open>
  An instance: the store with two locations.
\<close>

theorem rankings_properties_witness:
  "location ` set two_locations \<inter> set Object_prototype_names = {}
   \<and> (distinct (map rk_location (getRankings two_locations))
       \<and> set (map rk_location (getRankings two_locations)) = location ` set two_locations
       \<and> length (getRankings two_locations) = card (location ` set two_locations)
       \<and> sorted_wrt (\<ge>) (map rk_waterScore (getRankings two_locations))
       \<and> map rank (getRankings two_locations)
           = [1 ..< Suc (length (getRankings two_locations))])"
proof -
  have h: "location ` set two_locations \<inter> set Object_prototype_names = {}"
    by (simp add: two_locations_def sample_row_def Object_prototype_names_def)
  show ?thesis
    using h rankings_properties [OF h] by (rule conjI)
qed

lemma sample_row_fields:
  "location (sample_row l y g r q) = l"
  "year (sample_row l y g r q) = y"
  by (simp_all add: sample_row_def)

lemma sample_score: "calculateWaterScore (sample_row l y 8 800 4) = 60"
  by (simp add: calculateWaterScore_def sample_row_def normalize_js_def Let_def Math_round_def
      waterLevel_min_def waterLevel_max_def rainfall_min_def rainfall_max_def
      depletion_min_def depletion_max_def ph_ideal_def ph_range_def)

lemma not_index: "array_index ''Nashik'' = None" "array_index ''Sinnar'' = None"
  by (simp_all add: array_index_def is_digit_def)

lemma tied_latest:
  "build_latestMap tied_locations
   = [(''Nashik'', sample_row ''Nashik'' 2020 8 800 4),
      (''Sinnar'', sample_row ''Sinnar'' 2020 8 800 4)]"
  by (simp add: build_latestMap_def tied_locations_def latest_step_def sample_row_fields
      Object_prototype_names_def)

lemma tied_values:
  "Object_values (build_latestMap tied_locations)
   = [sample_row ''Nashik'' 2020 8 800 4, sample_row ''Sinnar'' 2020 8 800 4]"
  by (simp add: tied_latest Object_values_def not_index List.map_filter_simps)

text \<open>
  Two locations with the same readings both score 60, so the ranking is not
  strictly descending; and a location named \<open>constructor\<close> gets no entry.
\<close>

theorem rankings_counterexample:
  "map rk_waterScore (getRankings tied_locations) = [60, 60]
   \<and> getRankings prototype_named = []"
proof -
  have "map rk_waterScore (getRankings tied_locations)
        = map rk_waterScore (sort_key (\<lambda>r. - rk_waterScore r)
            (map (rank_row tied_locations) (Object_values (build_latestMap tied_locations))))"
    unfolding getRankings_def Let_def by (rule numbered_rows(2))
  also have "\<dots> = [60, 60]"
    unfolding tied_values by (simp add: rank_row_fields sample_score)
  finally have tie: "map rk_waterScore (getRankings tied_locations) = [60, 60]" .
  have "build_latestMap prototype_named = []"
    by (simp add: build_latestMap_def prototype_named_def latest_step_def sample_row_fields
        Object_prototype_names_def)
  then have "getRankings prototype_named = []"
    by (simp add: getRankings_def Object_values_def List.map_filter_simps)
  with tie show ?thesis by simp
qed

section \<open>Properties of the forecast\<close>

text \<open>
  Claim C4. When the store has fewer than 2 records for a location, the
  predictions endpoint answers with status 400, \<open>success: false\<close> and the
  message that at least 2 years of data are needed, and with no predictions.
\<close>

theorem predictions_need_two_years:
  assumes "length (filter (\<lambda>d. location d = loc) waterData) < 2"
  shows "getPredictions waterData loc years_param
         = \<lparr>status_code = 400, success = False,
            res_message = Some ''Need at least 2 years of data for predictions'',
            predictions = None, basedOn = None\<rparr>"
  using assms by (simp add: getPredictions_def getWaterByLocation_def Let_def)

text \<open>
  An instance: a location with a single year.
\<close>

theorem predictions_need_two_years_witness:
  "length (filter (\<lambda>d. location d = ''Nashik'') single_year) < 2
   \<and> getPredictions single_year ''Nashik'' None
       = \<lparr>status_code = 400, success = False,
          res_message = Some ''Need at least 2 years of data for predictions'',
          predictions = None, basedOn = None\<rparr>"
proof -
  have h: "length (filter (\<lambda>d. location d = ''Nashik'') single_year) < 2"
    by (simp add: single_year_def sample_row_def)
  show ?thesis
    using h predictions_need_two_years [OF h, of None] by simp
qed

text \<open>
  Rounding a rounded number again does not change it.
\<close>

lemma toFixed_idem: "toFixed (toFixed x d) d = toFixed x d"
proof -
  define k where "k = \<lfloor>\<bar>x\<bar> * 10 ^ d + 1 / 2\<rfloor>"
  have k0: "0 \<le> k"
    unfolding k_def by (simp add: le_floor_iff)
  have tf: "toFixed x d = sgn x * of_int k / 10 ^ d"
    by (simp add: toFixed_def k_def)
  show ?thesis
  proof (cases "x = 0 \<or> k = 0")
    case True
    then show ?thesis by (auto simp: tf)
  next
    case False
    then have x: "x \<noteq> 0" and k: "0 < k" using k0 by auto
    define y where "y = sgn x * of_int k / 10 ^ d"
    have absy: "\<bar>y\<bar> * 10 ^ d = of_int k"
      using x k by (simp add: y_def abs_mult abs_sgn_eq)
    have sgny: "sgn y = sgn x"
      using x k by (simp add: y_def sgn_mult sgn_divide)
    have "\<lfloor>\<bar>y\<bar> * 10 ^ d + 1 / 2\<rfloor> = k"
      unfolding absy by linarith
    then have "toFixed y d = sgn x * of_int k / 10 ^ d"
      by (simp add: toFixed_def sgny)
    then show ?thesis
      by (simp add: tf y_def)
  qed
qed

lemma linearRegression_two:
  assumes "x1 \<noteq> x2"
  shows "linearRegression [(x1, y1), (x2, y2)]
         = Inr \<lparr>slope = (2 * (x1 * y1 + x2 * y2) - (x1 + x2) * (y1 + y2))
                          / (2 * (x1 * x1 + x2 * x2) - (x1 + x2) * (x1 + x2)),
                intercept = ((y1 + y2)
                             - (2 * (x1 * y1 + x2 * y2) - (x1 + x2) * (y1 + y2))
                               / (2 * (x1 * x1 + x2 * x2) - (x1 + x2) * (x1 + x2))
                               * (x1 + x2)) / 2\<rparr>"
proof -
  have "2 * (x1 * x1 + x2 * x2) - (x1 + x2) * (x1 + x2) = (x1 - x2) * (x1 - x2)"
    by (simp add: algebra_simps)
  then have "2 * (x1 * x1 + x2 * x2) - (x1 + x2) * (x1 + x2) \<noteq> 0"
    using assms by simp
  then show ?thesis
    by (simp add: linearRegression_def sums_step_def Let_def)
qed

lemma calcResidualStdError_two: "calcResidualStdError [p, q] reg = 0"
  by (simp add: calcResidualStdError_def)

lemma predictFuture_regs:
  assumes "h \<noteq> []" and "1 \<le> k"
    and "linearRegression (map (\<lambda>d. (real_of_int (year d), groundwaterLevel d)) h) = Inr wl"
    and "linearRegression (map (\<lambda>d. (real_of_int (year d), rainfall d)) h) = Inr rf"
    and "linearRegression (map (\<lambda>d. (real_of_int (year d), depletionRate d)) h) = Inr dp"
  shows "predictFuture h k
         = Inr (map (predict_step (length h) (Max (set (map year h))) wl rf dp
                  (calcResidualStdError (map (\<lambda>d. (real_of_int (year d), groundwaterLevel d)) h) wl)
                  (calcResidualStdError (map (\<lambda>d. (real_of_int (year d), rainfall d)) h) rf)
                  (calcResidualStdError (map (\<lambda>d. (real_of_int (year d), depletionRate d)) h) dp))
                [1 .. k])"
  unfolding predictFuture_def Let_def assms(3-5) using assms(1,2) by simp

lemma predictFuture_none: "k < 1 \<Longrightarrow> predictFuture h k = Inr []"
  by (simp add: predictFuture_def)

lemma linearRegression_two_ex:
  "x1 \<noteq> x2 \<Longrightarrow> \<exists>r. linearRegression [(x1, y1), (x2, y2)] = Inr r"
  by (simp add: linearRegression_two)

lemma predictFuture_two:
  assumes "year a \<noteq> year b"
  shows "\<exists>wl rf dp.
           linearRegression [(real_of_int (year a), groundwaterLevel a),
                             (real_of_int (year b), groundwaterLevel b)] = Inr wl
         \<and> predictFuture [a, b] k
           = Inr (map (predict_step 2 (max (year a) (year b)) wl rf dp 0 0 0) [1 .. k])"
proof -
  have ne: "real_of_int (year a) \<noteq> real_of_int (year b)"
    using assms by simp
  obtain wl where wl: "linearRegression [(real_of_int (year a), groundwaterLevel a),
                             (real_of_int (year b), groundwaterLevel b)] = Inr wl"
    using linearRegression_two_ex [OF ne] by blast
  obtain rf where rf: "linearRegression [(real_of_int (year a), rainfall a),
                             (real_of_int (year b), rainfall b)] = Inr rf"
    using linearRegression_two_ex [OF ne] by blast
  obtain dp where dp: "linearRegression [(real_of_int (year a), depletionRate a),
                             (real_of_int (year b), depletionRate b)] = Inr dp"
    using linearRegression_two_ex [OF ne] by blast
  show ?thesis
  proof (cases "k < 1")
    case True
    then have "predictFuture [a, b] k = Inr []" and "[1 .. k] = []"
      by (simp_all add: predictFuture_none)
    then show ?thesis using wl by simp
  next
    case False
    then have k: "1 \<le> k" by simp
    have "predictFuture [a, b] k
          = Inr (map (predict_step 2 (max (year a) (year b)) wl rf dp 0 0 0) [1 .. k])"
      using predictFuture_regs [of "[a, b]" k wl rf dp] k wl rf dp
      by (simp add: calcResidualStdError_two eval_nat_numeral)
    then show ?thesis using wl by blast
  qed
qed

lemma two_point_prediction:
  assumes "year a < year b"
    and "linearRegression [(real_of_int (year a), groundwaterLevel a),
                           (real_of_int (year b), groundwaterLevel b)] = Inr wl"
  shows "\<exists>rf dp. predictFuture [a, b] 1
           = Inr [predict_step 2 (year b) wl rf dp 0 0 0 1]"
proof -
  have "year a \<noteq> year b" using assms(1) by simp
  then obtain wl' rf dp where
    wl': "linearRegression [(real_of_int (year a), groundwaterLevel a),
                            (real_of_int (year b), groundwaterLevel b)] = Inr wl'"
    and pf: "predictFuture [a, b] 1
             = Inr (map (predict_step 2 (max (year a) (year b)) wl' rf dp 0 0 0) [1 .. 1])"
    using predictFuture_two [of a b 1] by blast
  have "wl' = wl" using wl' assms(2) by simp
  moreover have "max (year a) (year b) = year b" using assms(1) by simp
  moreover have "[1 .. 1::int] = [1]" by (simp add: upto.simps)
  ultimately have "predictFuture [a, b] 1 = Inr [predict_step 2 (year b) wl rf dp 0 0 0 1]"
    using pf by simp
  then show ?thesis by blast
qed

lemma wl_estimate:
  "p_year (predict_step n ly wl rf dp 0 0 0 i) = ly + i"
  "p_groundwaterLevel (predict_step n ly wl rf dp 0 0 0 i)
     = max 0 (toFixed (slope wl * real_of_int (ly + i) + intercept wl) 2)"
  "groundwaterLevelCI (predict_step n ly wl rf dp 0 0 0 i)
     = \<lparr>lower = max 0 (toFixed (slope wl * real_of_int (ly + i) + intercept wl) 2),
        upper = toFixed (slope wl * real_of_int (ly + i) + intercept wl) 2\<rparr>"
  "confidenceLevel (predict_step n ly wl rf dp 0 0 0 i)
     = (if i \<le> 1 then ''high'' else if i \<le> 2 then ''medium'' else ''low'')"
  by (simp_all add: predict_step_def Let_def toFixed_idem)

text \<open>
  Claim C6. For two observations of the years 2018 and 2019 with groundwater
  levels 10 and 12, whatever their other fields, the regression of the level has
  slope 2, and predictFuture with yearsAhead = 1 returns one prediction: year
  2020, level 14, confidence interval from 14 to 14, confidenceLevel "high".
\<close>

theorem two_point_forecast:
  "linearRegression [(2018, 10), (2019, 12)] = Inr \<lparr>slope = 2, intercept = - 4026\<rparr>
   \<and> (\<exists>p. predictFuture [a\<lparr>year := 2018, groundwaterLevel := 10\<rparr>,
                          b\<lparr>year := 2019, groundwaterLevel := 12\<rparr>] 1 = Inr [p]
          \<and> p_year p = 2020
          \<and> p_groundwaterLevel p = 14
          \<and> groundwaterLevelCI p = \<lparr>lower = 14, upper = 14\<rparr>
          \<and> confidenceLevel p = ''high'')"
proof -
  define a' where "a' = a\<lparr>year := 2018, groundwaterLevel := 10\<rparr>"
  define b' where "b' = b\<lparr>year := 2019, groundwaterLevel := 12\<rparr>"
  have fields: "year a' = 2018" "year b' = 2019" "groundwaterLevel a' = 10"
    "groundwaterLevel b' = 12"
    by (simp_all add: a'_def b'_def)
  have reg: "linearRegression [(2018, 10), (2019, 12)] = Inr \<lparr>slope = 2, intercept = - 4026\<rparr>"
    by (simp add: linearRegression_def sums_step_def Let_def)
  then have reg': "linearRegression [(real_of_int (year a'), groundwaterLevel a'),
                               (real_of_int (year b'), groundwaterLevel b')]
             = Inr \<lparr>slope = 2, intercept = - 4026\<rparr>"
    unfolding fields by simp
  obtain rf dp where pf: "predictFuture [a', b'] 1
      = Inr [predict_step 2 (year b') \<lparr>slope = 2, intercept = - 4026\<rparr> rf dp 0 0 0 1]"
    using two_point_prediction [OF _ reg'] fields by auto
  have tf: "toFixed 14 2 = 14"
    by (simp add: toFixed_def)
  have "\<exists>p. predictFuture [a', b'] 1 = Inr [p]
          \<and> p_year p = 2020
          \<and> p_groundwaterLevel p = 14
          \<and> groundwaterLevelCI p = \<lparr>lower = 14, upper = 14\<rparr>
          \<and> confidenceLevel p = ''high''"
    unfolding pf by (simp add: wl_estimate fields tf)
  then show ?thesis
    using reg unfolding a'_def b'_def by simp
qed

text \<open>
  Claim C10 does not hold of the program. For the two-year history with
  groundwater level 10 in 2018 and 2 in 2019 the residual standard error is 0,
  the regression values for 2020, 2021 and 2022 are -6, -14 and -22, and
  \<open>predictFuture\<close> returns the point estimate 0 and the lower bound 0 with the
  upper bounds -6, -14 and -22: the estimate and the lower bound are floored at 0
  and the upper bound is not, so the lower and the upper bound differ, where the
  claim says lower = upper = point estimate.
\<close>

theorem falling_history_intervals:
  "map_sum id (map groundwaterLevelCI) (predictFuture falling2 3)
     = Inr [\<lparr>lower = 0, upper = - 6\<rparr>, \<lparr>lower = 0, upper = - 14\<rparr>,
            \<lparr>lower = 0, upper = - 22\<rparr>]
   \<and> map_sum id (map p_groundwaterLevel) (predictFuture falling2 3) = Inr [0, 0, 0]"
proof -
  define a where "a = sample_row ''Nashik'' 2018 10 800 4"
  define b where "b = sample_row ''Nashik'' 2019 2 800 4"
  define W where "W = \<lparr>slope = - 8, intercept = 16154\<rparr>"
  have fields: "year a = 2018" "year b = 2019" "groundwaterLevel a = 10" "groundwaterLevel b = 2"
    by (simp_all add: a_def b_def sample_row_def)
  have reg: "linearRegression [(real_of_int (year a), groundwaterLevel a),
                               (real_of_int (year b), groundwaterLevel b)] = Inr W"
    unfolding fields W_def by (simp add: linearRegression_def sums_step_def Let_def)
  have ne: "year a \<noteq> year b"
    by (simp add: fields)
  obtain wl rf dp where
    wl: "linearRegression [(real_of_int (year a), groundwaterLevel a),
                           (real_of_int (year b), groundwaterLevel b)] = Inr wl"
    and pf: "predictFuture [a, b] 3
             = Inr (map (predict_step 2 (max (year a) (year b)) wl rf dp 0 0 0) [1 .. 3])"
    using predictFuture_two [OF ne, of 3] by blast
  have "wl = W"
    using wl reg by simp
  moreover have "max (year a) (year b) = 2019"
    by (simp add: fields)
  moreover have "[1 .. 3::int] = [1, 2, 3]"
    by (simp add: upto.simps)
  moreover have "falling2 = [a, b]"
    by (simp add: falling2_def a_def b_def)
  ultimately have e: "predictFuture falling2 3
      = Inr [predict_step 2 2019 W rf dp 0 0 0 1, predict_step 2 2019 W rf dp 0 0 0 2,
             predict_step 2 2019 W rf dp 0 0 0 3]"
    using pf by simp
  have tf: "toFixed (- 6) 2 = - 6" "toFixed (- 14) 2 = - 14" "toFixed (- 22) 2 = - 22"
    by (simp_all add: toFixed_def)
  have ci: "groundwaterLevelCI (predict_step 2 2019 W rf dp 0 0 0 1) = \<lparr>lower = 0, upper = - 6\<rparr>"
    "groundwaterLevelCI (predict_step 2 2019 W rf dp 0 0 0 2) = \<lparr>lower = 0, upper = - 14\<rparr>"
    "groundwaterLevelCI (predict_step 2 2019 W rf dp 0 0 0 3) = \<lparr>lower = 0, upper = - 22\<rparr>"
    by (simp_all add: wl_estimate W_def tf)
  have est: "p_groundwaterLevel (predict_step 2 2019 W rf dp 0 0 0 1) = 0"
    "p_groundwaterLevel (predict_step 2 2019 W rf dp 0 0 0 2) = 0"
    "p_groundwaterLevel (predict_step 2 2019 W rf dp 0 0 0 3) = 0"
    by (simp_all add: wl_estimate W_def tf)
  show ?thesis
    by (simp add: e ci est)
qed

end
